theory Spec2Isabelle
  imports Main "HOL-Library.Word"
begin

unbundle bit_operations_syntax

section \<open>Machine types of the emitted Metal code\<close>

text \<open>
  The generator of \<^verbatim>\<open>GEMMHeaders.cpp\<close> returns two Metal headers as text.  The
  functions inside that text are modelled here by what they compute: \<^verbatim>\<open>ushort\<close> is a
  16-bit word, \<^verbatim>\<open>uint\<close> a 32-bit word, \<^verbatim>\<open>ulong\<close> a 64-bit word, and
  \<^verbatim>\<open>ushort2\<close> a pair of 16-bit words with components \<^verbatim>\<open>.x\<close> and \<^verbatim>\<open>.y\<close>.
\<close>

type_synonym ushort = "16 word"
type_synonym uint = "32 word"
type_synonym ulong = "64 word"

datatype ushort2 = ushort2 (x_of: ushort) (y_of: ushort)

datatype uint2 = uint2 (ux_of: uint) (uy_of: uint)

text \<open>The swizzle \<^verbatim>\<open>v.yx\<close>.\<close>

definition yx :: "ushort2 \<Rightarrow> ushort2" where
  "yx v = ushort2 (y_of v) (x_of v)"

section \<open>The lane layout: \<^verbatim>\<open>morton_order\<close>\<close>

text \<open>
  \<^verbatim>\<open>
  ushort lane_id = thread_index_in_simdgroup;
  ushort quad_id = lane_id / 4;
  ushort M_floor_of_quadrant = (quad_id / 4) * QUADRANT_SPAN_M;             // 4
  ushort M_in_quadrant = (lane_id / 2) % (THREADS_PER_QUADRANT / 2);        // 8 / 2
  ushort M_in_simd = M_floor_of_quadrant + M_in_quadrant;
  ushort N_floor_of_quadrant = (quad_id & 2) * 2;
  ushort N_in_quadrant = (lane_id % 2) * 2;
  ushort N_in_simd = N_floor_of_quadrant + N_in_quadrant;
  return ushort2(N_in_simd, M_in_simd);
  \<close>
  Every intermediate value is at most the lane index, so the promotion of \<^verbatim>\<open>ushort\<close>
  to \<^verbatim>\<open>int\<close> and the conversion back never lose a bit.
\<close>

definition QUADRANT_SPAN_M :: ushort where
  "QUADRANT_SPAN_M = 4"

definition THREADS_PER_QUADRANT :: ushort where
  "THREADS_PER_QUADRANT = 8"

definition morton_order :: "ushort \<Rightarrow> ushort2" where
  "morton_order thread_index_in_simdgroup =
     (let lane_id = thread_index_in_simdgroup;
          quad_id = lane_id div 4;
          M_floor_of_quadrant = (quad_id div 4) * QUADRANT_SPAN_M;
          M_in_quadrant = (lane_id div 2) mod (THREADS_PER_QUADRANT div 2);
          M_in_simd = M_floor_of_quadrant + M_in_quadrant;
          N_floor_of_quadrant = (quad_id AND 2) * 2;
          N_in_quadrant = (lane_id mod 2) * 2;
          N_in_simd = N_floor_of_quadrant + N_in_quadrant
      in ushort2 N_in_simd M_in_simd)"

text \<open>The 32 lanes of a simdgroup, and the base position of each.\<close>

definition lane_indices :: "ushort list" where
  "lane_indices = map of_nat [0..<32]"

definition lane_coordinates :: "ushort2 list" where
  "lane_coordinates = map morton_order lane_indices"

text \<open>The lanes that are mapped to a given base position.\<close>

definition lanes_at :: "ushort2 \<Rightarrow> ushort list" where
  "lanes_at c = filter (\<lambda>i. morton_order i = c) lane_indices"

text \<open>
  The two cells a lane owns: columns \<^verbatim>\<open>col\<close> and \<^verbatim>\<open>col + 1\<close> of its row, as
  pairs (column, row) of natural numbers.
\<close>

definition lane_run :: "ushort2 \<Rightarrow> (nat \<times> nat) list" where
  "lane_run c = [(unat (x_of c), unat (y_of c)), (unat (x_of c) + 1, unat (y_of c))]"

definition covered_cells :: "(nat \<times> nat) list" where
  "covered_cells = concat (map lane_run lane_coordinates)"

definition grid_cells :: "(nat \<times> nat) list" where
  "grid_cells = List.product [0..<8] [0..<8]"

section \<open>The generator of the load and store functions\<close>

text \<open>
  \<^verbatim>\<open>createMetalSimdgroupMatrixStorage\<close> builds the text of one Metal function per
  \<^verbatim>\<open>MemoryAccessDescriptor\<close>.  Text is a \<^typ>\<open>string\<close> (a list of bytes), a
  \<^verbatim>\<open>std::vector<std::string>\<close> a list of strings, and \<^verbatim>\<open>push_back\<close> appends at
  the end.
\<close>

datatype AddressSpace = device | threadgroup

fun keyword :: "AddressSpace \<Rightarrow> string" where
  "keyword device = ''device''"
| "keyword threadgroup = ''threadgroup''"

fun offsetType :: "AddressSpace \<Rightarrow> string" where
  "offsetType device = ''uint''"
| "offsetType threadgroup = ''ushort''"

datatype Action = load | store

text \<open>
  The three \<^verbatim>\<open>std::optional\<close> fields are empty in a descriptor that was only
  declared; \<^verbatim>\<open>indentationSpaceCount\<close> is a plain \<^verbatim>\<open>int64_t\<close> with the
  initialiser 0.
\<close>

record MemoryAccessDescriptor =
  action :: "Action option"
  addressSpace :: "AddressSpace option"
  decodingBF16 :: "bool option"
  indentationSpaceCount :: int

definition default_descriptor :: MemoryAccessDescriptor where
  "default_descriptor =
     \<lparr>action = None, addressSpace = None, decodingBF16 = None, indentationSpaceCount = 0\<rparr>"

text \<open>
  What a call can end with instead of text: the failed precondition, and the
  \<^verbatim>\<open>std::length_error\<close> of \<^verbatim>\<open>std::string(count, ' ')\<close> for a negative count, which
  the conversion to \<^verbatim>\<open>size_t\<close> turns into a length of at least \<open>2^63\<close>.
\<close>

datatype error = InvalidDescriptor | LengthError

text \<open>
  Modelled from the spec: the macro \<^verbatim>\<open>CCV_NNC_MFA_PRECONDITION\<close> is declared in
  \<^verbatim>\<open>ccv_nnc_mfa_error.hpp\<close>, which is not among the sources.  The spec treats a failed
  precondition as ``fails with InvalidDescriptor'', fatal to the generation call.
\<close>

definition CCV_NNC_MFA_PRECONDITION :: "bool \<Rightarrow> error + unit" where
  "CCV_NNC_MFA_PRECONDITION expr = (if expr then Inr () else Inl InvalidDescriptor)"

text \<open>Sequencing of steps that may fail: the first failure ends the call.\<close>

definition and_then :: "error + 'a \<Rightarrow> ('a \<Rightarrow> error + 'b) \<Rightarrow> error + 'b" where
  "and_then r f = (case r of Inl e \<Rightarrow> Inl e | Inr v \<Rightarrow> f v)"

text \<open>\<^verbatim>\<open>std::string(count, ' ')\<close> for an \<^verbatim>\<open>int64_t\<close> count.\<close>

definition spaces :: "int \<Rightarrow> error + string" where
  "spaces count = (if count < 0 then Inl LengthError else Inr (replicate (nat count) CHR '' ''))"

text \<open>\<^verbatim>\<open>std::to_string\<close> of an \<^verbatim>\<open>int64_t\<close>: the decimal digits, with a minus sign.\<close>

definition digit_char :: "nat \<Rightarrow> char" where
  "digit_char d = ''0123456789'' ! d"

function to_string_nat :: "nat \<Rightarrow> string" where
  "to_string_nat n =
     (if n < 10 then [digit_char n] else to_string_nat (n div 10) @ [digit_char (n mod 10)])"
  by pat_completeness auto
termination
  by (relation "measure id") auto

declare to_string_nat.simps [simp del]

definition to_string :: "int \<Rightarrow> string" where
  "to_string i = (if i < 0 then CHR ''-'' # to_string_nat (nat (- i)) else to_string_nat (nat i))"

subsection \<open>The signature\<close>

definition pointerArgument :: "Action \<Rightarrow> AddressSpace \<Rightarrow> string \<Rightarrow> string" where
  "pointerArgument act space dataType =
     (if act = load then ''const '' @ keyword space @ '' '' @ dataType @ '' *src''
      else keyword space @ '' '' @ dataType @ '' *dst'')"

definition arguments :: "Action \<Rightarrow> AddressSpace \<Rightarrow> bool \<Rightarrow> string list" where
  "arguments act space bf16 =
     (let args = [];
          args = (if bf16 then args @ [pointerArgument act space ''bfloat'']
                  else args @ [pointerArgument act space ''U'']);
          args = args @ [offsetType space @ '' elements_per_row''];
          args = args @ [''ushort2 matrix_origin''];
          args = args @ [''bool transpose_matrix = false'']
      in args)"

text \<open>
  \<^verbatim>\<open>
  for (int64_t it = 0; it < arguments.size(); ++it) {
    output += arguments[it];
    if (it < arguments.size() - 1) { output += ", "; }
  }
  \<close>
  The body runs only when the vector is not empty, so \<^verbatim>\<open>arguments.size() - 1\<close> does
  not wrap around.
\<close>

function argument_loop :: "string list \<Rightarrow> nat \<Rightarrow> string \<Rightarrow> string" where
  "argument_loop args it output =
     (if it < length args
      then argument_loop args (Suc it)
             (let output = output @ args ! it
              in if it < length args - 1 then output @ '', '' else output)
      else output)"
  by pat_completeness auto
termination
  by (relation "measure (\<lambda>(args, it, output). length args - it)") auto

declare argument_loop.simps [simp del]

subsection \<open>Addresses\<close>

definition createAddress :: "AddressSpace \<Rightarrow> bool \<Rightarrow> int \<Rightarrow> string" where
  "createAddress space transposed offset =
     (let lineY = offsetType space @ ''(matrix_origin.y)'';
          lineX = ''matrix_origin.x + '' @ to_string offset;
          lineX = offsetType space @ ''('' @ lineX @ '')''
      in if transposed then lineX @ '' * elements_per_row + '' @ lineY
         else lineY @ '' * elements_per_row + '' @ lineX)"

subsection \<open>The two access paths\<close>

definition createTwoPartAccess :: "Action \<Rightarrow> AddressSpace \<Rightarrow> bool \<Rightarrow> bool \<Rightarrow> string list" where
  "createTwoPartAccess act space bf16 transposed =
     (let lines = map (\<lambda>laneID. offsetType space @ '' address'' @ to_string laneID @
                                  '' = '' @ createAddress space transposed laneID) [0, 1];
          lines = (if act = load
                   then (if bf16
                         then lines @ [''bfloat memoryForm0 = src[address0]'',
                                       ''bfloat memoryForm1 = src[address1]'']
                         else lines @ [''U memoryForm0 = src[address0]'',
                                       ''U memoryForm1 = src[address1]''])
                   else lines);
          lines = (if act = load
                   then (if bf16
                         then lines @ ['''',
                                       ''bfloat4 registerForm = *(thread bfloat4*)(thread_elements())'',
                                       ''registerForm[1] = memoryForm0'',
                                       ''registerForm[3] = memoryForm1'',
                                       ''((thread bfloat4*)thread_elements())[0] = registerForm'']
                         else lines @ [''((thread T*)thread_elements())[0] = T(memoryForm0)'',
                                       ''((thread T*)thread_elements())[1] = T(memoryForm1)''])
                   else (if bf16
                         then lines @ [''bfloat4 registerForm = *(thread bfloat4*)(thread_elements())'',
                                       ''registerForm[2] = registerForm[1]'']
                         else lines @ [''T registerForm0 = ((thread T*)thread_elements())[0]'',
                                       ''T registerForm1 = ((thread T*)thread_elements())[1]'']));
          lines = (if act = store
                   then (if bf16
                         then lines @ [''dst[address0] = registerForm[2]'',
                                       ''dst[address1] = registerForm[3]'']
                         else lines @ [''dst[address0] = U(registerForm0)'',
                                       ''dst[address1] = U(registerForm1)''])
                   else lines)
      in lines)"

definition createOnePartAccess :: "Action \<Rightarrow> AddressSpace \<Rightarrow> bool \<Rightarrow> string list" where
  "createOnePartAccess act space bf16 =
     (let lines = [''auto combinedAddress = '' @ createAddress space False 0]
      in if act = load
         then (if bf16
               then lines @ [''bfloat2 memoryForm = *(const '' @ keyword space @
                               '' packed_bfloat2*)(src + combinedAddress)'',
                             '''',
                             ''bfloat4 registerForm = *(thread bfloat4*)(thread_elements())'',
                             ''((thread float*)&registerForm)[1] = *(thread float*)(&memoryForm)'',
                             ''((thread bfloat*)&registerForm)[1] = memoryForm[0]'',
                             ''((thread bfloat4*)thread_elements())[0] = registerForm'']
               else lines @ [''vec<U, 2> memoryForm = *(const '' @ keyword space @
                               '' vec<U, 2>*)(src + combinedAddress)'',
                             ''*(thread_elements()) = vec<T, 2>(memoryForm)''])
         else (if bf16
               then lines @ [''bfloat4 registerForm = *(thread bfloat4*)(thread_elements())'',
                             ''registerForm[2] = registerForm[1]'',
                             ''float memoryForm = ((thread float*)&registerForm)[1]'',
                             ''*('' @ keyword space @ '' float*)'' @
                               ''(dst + combinedAddress) = memoryForm'']
               else lines @ [''vec<T, 2> registerForm = *(thread_elements())'',
                             ''*('' @ keyword space @ '' vec<U, 2>*)'' @
                               ''(dst + combinedAddress) = vec<U, 2>(registerForm)'']))"

subsection \<open>Assembling a block\<close>

text \<open>
  \<^verbatim>\<open>isspace\<close> in the C locale: space, \<^verbatim>\<open>\t \n \v \f \r\<close>.  The loop hands it an
  \<^verbatim>\<open>int8_t\<close>; a byte from 128 on arrives as a negative number, which no table entry
  of the C locale marks as a space.
\<close>

definition isspace :: "char \<Rightarrow> bool" where
  "isspace c = (of_char c \<in> {9, 10, 11, 12, 13, 32 :: nat})"

text \<open>
  \<^verbatim>\<open>
  bool allCharactersWhitespace = true;
  for (int8_t character : line) {
    if (isspace(character)) { } else { allCharactersWhitespace = false; }
  }
  \<close>
\<close>

fun whitespace_loop :: "string \<Rightarrow> bool \<Rightarrow> bool" where
  "whitespace_loop [] allCharactersWhitespace = allCharactersWhitespace"
| "whitespace_loop (character # rest) allCharactersWhitespace =
     whitespace_loop rest (if isspace character then allCharactersWhitespace else False)"

fun insertBlockContents :: "string list \<Rightarrow> string list \<Rightarrow> string list" where
  "insertBlockContents body [] = body"
| "insertBlockContents body (line # block) =
     insertBlockContents
       (if whitespace_loop line True then body @ [''  ''] else body @ [''  '' @ line @ '';''])
       block"

subsection \<open>The body and the whole function\<close>

definition body_lines :: "Action \<Rightarrow> AddressSpace \<Rightarrow> bool \<Rightarrow> string list" where
  "body_lines act space bf16 =
     (let body = [''if (transpose_matrix) {''];
          body = insertBlockContents body (createTwoPartAccess act space bf16 True)
      in if bf16
         then (let blockContents = (if act = load then createOnePartAccess act space bf16
                                    else createTwoPartAccess act space bf16 False);
                   body = body @ [''} else {''];
                   body = insertBlockContents body blockContents;
                   body = body @ [''}'']
               in body)
         else (let body = body @ [''} else if (elements_per_row % 2 != 0) {''];
                   body = insertBlockContents body (createTwoPartAccess act space bf16 False);
                   body = body @ [''} else {''];
                   body = insertBlockContents body (createOnePartAccess act space bf16);
                   body = body @ [''}'']
               in body))"

text \<open>
  \<^verbatim>\<open>for (std::string line : body) { output += indentation + "  " + line + "\n"; }\<close>
\<close>

fun body_loop :: "string \<Rightarrow> string list \<Rightarrow> string \<Rightarrow> string" where
  "body_loop indentation [] output = output"
| "body_loop indentation (line # body) output =
     body_loop indentation body (output @ indentation @ ''  '' @ line @ [CHR 0x0A])"

definition createMemoryAccess :: "MemoryAccessDescriptor \<Rightarrow> error + string" where
  "createMemoryAccess descriptor =
     and_then (CCV_NNC_MFA_PRECONDITION (action descriptor \<noteq> None)) (\<lambda>_.
     and_then (CCV_NNC_MFA_PRECONDITION (addressSpace descriptor \<noteq> None)) (\<lambda>_.
     and_then (CCV_NNC_MFA_PRECONDITION (decodingBF16 descriptor \<noteq> None)) (\<lambda>_.
     let act = the (action descriptor);
         space = the (addressSpace descriptor);
         bf16 = the (decodingBF16 descriptor)
     in and_then (spaces (indentationSpaceCount descriptor)) (\<lambda>indentation.
     let args = arguments act space bf16;
         output = '''';
         output = (if bf16 then output @ indentation @ ''// WARNING: 'T' must be 'float'.'' @ [CHR 0x0A]
                   else output @ indentation @ ''template <typename U>'' @ [CHR 0x0A]);
         output = output @ indentation @ ''METAL_FUNC void'';
         output = (if act = load then output @ '' load'' else output @ '' store'');
         output = (if bf16 then output @ ''_bfloat'' else output);
         output = output @ ''('';
         output = argument_loop args 0 output;
         output = output @ '') {'' @ [CHR 0x0A];
         output = body_loop indentation (body_lines act space bf16) output;
         output = output @ indentation @ ''}'' @ [CHR 0x0A]
     in Inr output))))"

subsection \<open>The layout of the generated text\<close>

text \<open>
  The text of a generated function, line by line and without the indentation: the
  comment or template line, the signature with its arguments separated by commas, the
  body one level deeper, and the closing brace.
\<close>

fun join :: "string \<Rightarrow> string list \<Rightarrow> string" where
  "join sep [] = ''''"
| "join sep [x] = x"
| "join sep (x # y # ys) = x @ sep @ join sep (y # ys)"

definition signature_line :: "Action \<Rightarrow> AddressSpace \<Rightarrow> bool \<Rightarrow> string" where
  "signature_line act space bf16 =
     ''METAL_FUNC void'' @ (if act = load then '' load'' else '' store'') @
     (if bf16 then ''_bfloat'' else '''') @
     ''('' @ join '', '' (arguments act space bf16) @ '') {''"

definition function_lines :: "Action \<Rightarrow> AddressSpace \<Rightarrow> bool \<Rightarrow> string list" where
  "function_lines act space bf16 =
     [if bf16 then ''// WARNING: 'T' must be 'float'.'' else ''template <typename U>'',
      signature_line act space bf16] @
     map (\<lambda>line. ''  '' @ line) (body_lines act space bf16) @ [''}'']"

definition indented :: "string \<Rightarrow> string list \<Rightarrow> string" where
  "indented indentation ls = concat (map (\<lambda>line. indentation @ line @ [CHR 0x0A]) ls)"

subsection \<open>Assembling the header\<close>

text \<open>
  \<^verbatim>\<open>
  MemoryAccessDescriptor desc;
  desc.indentationSpaceCount = 4;
  for (auto action : actions) {
    for (auto addressSpace : addressSpaces) {
      for (auto decodingBF16 : decodingBF16s) {
        desc.action = action;
        desc.addressSpace = addressSpace;
        desc.decodingBF16 = decodingBF16;
        output += createMemoryAccess(desc);
        output += "\n";
      }
    }
  }
  \<close>
  The descriptor and the output are the state of the loops; a failed call ends them.
\<close>

fun for_each :: "'a list \<Rightarrow> ('a \<Rightarrow> 's \<Rightarrow> error + 's) \<Rightarrow> 's \<Rightarrow> error + 's" where
  "for_each [] body s = Inr s"
| "for_each (x # xs) body s = and_then (body x s) (for_each xs body)"

definition append_variant ::
  "Action \<Rightarrow> AddressSpace \<Rightarrow> bool \<Rightarrow> MemoryAccessDescriptor \<times> string \<Rightarrow>
   error + MemoryAccessDescriptor \<times> string" where
  "append_variant act space bf16 state =
     (case state of (desc, output) \<Rightarrow>
        let desc = desc\<lparr>action := Some act\<rparr>;
            desc = desc\<lparr>addressSpace := Some space\<rparr>;
            desc = desc\<lparr>decodingBF16 := Some bf16\<rparr>
        in and_then (createMemoryAccess desc) (\<lambda>text.
             let output = output @ text;
                 output = output @ [CHR 0x0A]
             in Inr (desc, output)))"

text \<open>
  The two fixed sections of the matrix storage header, as the raw string literals
  have them.
\<close>

definition first_section :: string where
  "first_section =
     ''\<newline>'' @
     ''// -*- Metal -*-\<newline>'' @
     ''//===-- metal_simdgroup_matrix_storage ------------------------------------===//\<newline>'' @
     ''// Copyright (c) 2024 Philip Turner. See MIT LICENSE\<newline>'' @
     ''//===----------------------------------------------------------------------===//\<newline>'' @
     ''\<newline>'' @
     ''#ifndef __METAL_SIMDGROUP_MATRIX_STORAGE\<newline>'' @
     ''#define __METAL_SIMDGROUP_MATRIX_STORAGE\<newline>'' @
     ''\<newline>'' @
     ''// The layout of threads within a SIMD matrix.\<newline>'' @
     ''//\<newline>'' @
     ''//  0  0  1  1  8  8  9  9\<newline>'' @
     ''//  2  2  3  3 10 10 11 11\<newline>'' @
     ''//  4  4  5  5 12 12 13 13\<newline>'' @
     ''//  6  6  7  7 14 14 15 15\<newline>'' @
     ''// 16 16 17 17 24 24 25 25\<newline>'' @
     ''// 18 18 19 19 26 26 27 27\<newline>'' @
     ''// 20 20 21 21 28 28 29 29\<newline>'' @
     ''// 22 22 23 23 30 30 31 31\<newline>'' @
     ''//\<newline>'' @
     ''// This is Morton order, a method for coalescing data accesses. It is used\<newline>'' @
     ''// in a variety of contexts, from ray tracing acceleration structures, to\<newline>'' @
     ''// nodal-point Laplacians, to sorting large lattices of atoms.\<newline>'' @
     ''//\<newline>'' @
     ''// Source: https://patents.google.com/patent/US11256518B2\<newline>'' @
     ''METAL_FUNC static ushort2 morton_order(ushort thread_index_in_simdgroup) {\<newline>'' @
     ''  ushort lane_id = thread_index_in_simdgroup;\<newline>'' @
     ''  ushort quad_id = lane_id / 4;\<newline>'' @
     ''  \<newline>'' @
     ''  constexpr ushort QUADRANT_SPAN_M = 4;\<newline>'' @
     ''  constexpr ushort THREADS_PER_QUADRANT = 8;\<newline>'' @
     ''  ushort M_floor_of_quadrant = (quad_id / 4) * QUADRANT_SPAN_M;\<newline>'' @
     ''  ushort M_in_quadrant = (lane_id / 2) % (THREADS_PER_QUADRANT / 2);\<newline>'' @
     ''  ushort M_in_simd = M_floor_of_quadrant + M_in_quadrant;\<newline>'' @
     ''  \<newline>'' @
     ''  ushort N_floor_of_quadrant = (quad_id & 2) * 2; // 0 or 4\<newline>'' @
     ''  ushort N_in_quadrant = (lane_id % 2) * 2; // 0 or 2\<newline>'' @
     ''  ushort N_in_simd = N_floor_of_quadrant + N_in_quadrant;\<newline>'' @
     ''  \<newline>'' @
     ''  return ushort2(N_in_simd, M_in_simd);\<newline>'' @
     ''}\<newline>'' @
     ''\<newline>'' @
     ''#pragma METAL internals : enable\<newline>'' @
     ''namespace metal\<newline>'' @
     ''{\<newline>'' @
     ''  template <typename T>\<newline>'' @
     ''  struct simdgroup_matrix_storage {\<newline>'' @
     ''    typedef vec<T, 64> storage_type;\<newline>'' @
     ''    \<newline>'' @
     ''    storage_type t;\<newline>'' @
     ''    \<newline>'' @
     ''    METAL_FUNC thread vec<T, 2>* thread_elements() thread {\<newline>'' @
     ''      return reinterpret_cast<thread vec<T, 2>*>(&t);\<newline>'' @
     ''    }\<newline>'' @
     ''    \<newline>'' @
     ''    METAL_FUNC simdgroup_matrix_storage() thread = default;\<newline>'' @
     ''    \<newline>'' @
     ''    METAL_FUNC simdgroup_matrix_storage(vec<T, 2> thread_elements) thread {\<newline>'' @
     ''      *(this->thread_elements()) = thread_elements;\<newline>'' @
     ''    }\<newline>'' @
     ''\<newline>'' @
     ''    METAL_FUNC static device T* apply_offset(device T *src, uint elements_per_row, uint2 matrix_origin, bool transpose_matrix = false) {\<newline>'' @
     ''      if (transpose_matrix) {\<newline>'' @
     ''        return src + ulong(matrix_origin.x * elements_per_row) + matrix_origin.y;\<newline>'' @
     ''      } else {\<newline>'' @
     ''        return src + ulong(matrix_origin.y * elements_per_row) + matrix_origin.x;\<newline>'' @
     ''      }\<newline>'' @
     ''    }\<newline>'' @
     ''    \<newline>'' @
     ''    METAL_FUNC static threadgroup T* apply_offset(threadgroup T *src, ushort elements_per_row, ushort2 matrix_origin, bool transpose_matrix = false) {\<newline>'' @
     ''      if (transpose_matrix) {\<newline>'' @
     ''        return src + matrix_origin.x * elements_per_row + matrix_origin.y;\<newline>'' @
     ''      } else {\<newline>'' @
     ''        return src + matrix_origin.y * elements_per_row + matrix_origin.x;\<newline>'' @
     ''      }\<newline>'' @
     ''    }\<newline>'' @
     ''\<newline>''"

definition last_section :: string where
  "last_section =
     ''\<newline>'' @
     ''    template <typename U, typename V>\<newline>'' @
     ''    METAL_FUNC void multiply(simdgroup_matrix_storage<U> a, simdgroup_matrix_storage<V> b, bool accumulate = true) {\<newline>'' @
     ''      if (!accumulate) {\<newline>'' @
     ''        *(thread_elements()) = vec<T, 2>(0);\<newline>'' @
     ''      }\<newline>'' @
     ''      t = __metal_simdgroup_matrix_8x8_multiply_accumulate(a.t, b.t, t, typename simdgroup_matrix_storage<T>::storage_type());\<newline>'' @
     ''    }\<newline>'' @
     ''  };\<newline>'' @
     ''} // namespace metal\<newline>'' @
     ''#pragma METAL internals : disable\<newline>'' @
     ''\<newline>'' @
     ''#endif // __METAL_SIMDGROUP_MATRIX_STORAGE\<newline>'' @
     ''\<newline>''"

definition createMetalSimdgroupMatrixStorage :: "error + string" where
  "createMetalSimdgroupMatrixStorage =
     (let output = '''';
          output = output @ first_section;
          desc = default_descriptor;
          desc = desc\<lparr>indentationSpaceCount := 4\<rparr>;
          actions = [load, store];
          addressSpaces = [device, threadgroup];
          decodingBF16s = [False, True]
      in and_then
           (for_each actions (\<lambda>act.
              for_each addressSpaces (\<lambda>space.
                for_each decodingBF16s (\<lambda>bf16. append_variant act space bf16)))
              (desc, output))
           (\<lambda>(desc, output). Inr (output @ last_section)))"

text \<open>
  The order of the eight variants: operation outermost, memory space in the middle,
  codec innermost.
\<close>

definition variants :: "(Action \<times> AddressSpace \<times> bool) list" where
  "variants =
     [(load, device, False), (load, device, True),
      (load, threadgroup, False), (load, threadgroup, True),
      (store, device, False), (store, device, True),
      (store, threadgroup, False), (store, threadgroup, True)]"

text \<open>
  \<^verbatim>\<open>createMetalSimdgroupEvent\<close> takes no argument and returns one string literal, the
  tile copy header.
\<close>

definition createMetalSimdgroupEvent :: string where
  "createMetalSimdgroupEvent =
     ''// -*- Metal -*-\<newline>'' @
     ''//===-- metal_simdgroup_event ---------------------------------------------===//\<newline>'' @
     ''// Copyright (c) 2024 Philip Turner. See MIT LICENSE\<newline>'' @
     ''//===----------------------------------------------------------------------===//\<newline>'' @
     ''\<newline>'' @
     ''#ifndef __METAL_SIMDGROUP_EVENT\<newline>'' @
     ''#define __METAL_SIMDGROUP_EVENT\<newline>'' @
     ''\<newline>'' @
     ''using namespace metal;\<newline>'' @
     ''\<newline>'' @
     ''enum class simdgroup_async_copy_clamp_mode {\<newline>'' @
     ''  clamp_to_zero = 0,\<newline>'' @
     ''  clamp_to_edge = 1\<newline>'' @
     ''};\<newline>'' @
     ''\<newline>'' @
     ''// NOTE:\<newline>'' @
     ''// This is a \"no-asm\" compatibility implementation.\<newline>'' @
     ''// It preserves the API surface used by the kernels, but does NOT overlap copy\<newline>'' @
     ''// latency with compute (it is synchronous).\<newline>'' @
     ''struct simdgroup_event {\<newline>'' @
     ''  METAL_FUNC simdgroup_event() thread {}\<newline>'' @
     ''\<newline>'' @
     ''  template <typename T>\<newline>'' @
     ''  METAL_FUNC void async_copy(\<newline>'' @
     ''    threadgroup T *dst,\<newline>'' @
     ''    const device T *src,\<newline>'' @
     ''    ulong n_elements\<newline>'' @
     ''  ) thread {\<newline>'' @
     ''    for (ulong i = 0; i < n_elements; ++i) {\<newline>'' @
     ''      dst[i] = src[i];\<newline>'' @
     ''    }\<newline>'' @
     ''  }\<newline>'' @
     ''\<newline>'' @
     ''  template <typename T>\<newline>'' @
     ''  METAL_FUNC void async_copy(\<newline>'' @
     ''    device T *dst,\<newline>'' @
     ''    const threadgroup T *src,\<newline>'' @
     ''    ulong n_elements\<newline>'' @
     ''  ) thread {\<newline>'' @
     ''    for (ulong i = 0; i < n_elements; ++i) {\<newline>'' @
     ''      dst[i] = src[i];\<newline>'' @
     ''    }\<newline>'' @
     ''  }\<newline>'' @
     ''\<newline>'' @
     ''  template <typename T>\<newline>'' @
     ''  METAL_FUNC void async_copy(\<newline>'' @
     ''    // Destination\<newline>'' @
     ''    threadgroup T *dst,\<newline>'' @
     ''    ushort dst_elements_per_row,\<newline>'' @
     ''    ushort2 dst_tile_dimensions,\<newline>'' @
     ''\<newline>'' @
     ''    // Source\<newline>'' @
     ''    const device T *src,\<newline>'' @
     ''    uint src_elements_per_row,\<newline>'' @
     ''    ushort2 src_tile_dimensions,\<newline>'' @
     ''\<newline>'' @
     ''    // Other\<newline>'' @
     ''    bool transpose_matrix = false,\<newline>'' @
     ''    simdgroup_async_copy_clamp_mode clamp_mode =\<newline>'' @
     ''      simdgroup_async_copy_clamp_mode::clamp_to_zero\<newline>'' @
     ''  ) thread {\<newline>'' @
     ''    // Match the existing behavior: when transpose_matrix is true, we swap the\<newline>'' @
     ''    // tile dims (we do NOT reorder elements; downstream addressing still uses\<newline>'' @
     ''    // the transpose flag).\<newline>'' @
     ''    if (transpose_matrix) {\<newline>'' @
     ''      src_tile_dimensions = src_tile_dimensions.yx;\<newline>'' @
     ''      dst_tile_dimensions = dst_tile_dimensions.yx;\<newline>'' @
     ''    }\<newline>'' @
     ''\<newline>'' @
     ''    // Copy dst_tile_dimensions; clamp out-of-bounds src reads.\<newline>'' @
     ''    for (ushort y = 0; y < dst_tile_dimensions.y; ++y) {\<newline>'' @
     ''      for (ushort x = 0; x < dst_tile_dimensions.x; ++x) {\<newline>'' @
     ''        bool in_bounds = (x < src_tile_dimensions.x) && (y < src_tile_dimensions.y);\<newline>'' @
     ''\<newline>'' @
     ''        ulong dst_index = ulong(y) * ulong(dst_elements_per_row) + ulong(x);\<newline>'' @
     ''\<newline>'' @
     ''        if (in_bounds) {\<newline>'' @
     ''          ulong src_index = ulong(y) * ulong(src_elements_per_row) + ulong(x);\<newline>'' @
     ''          dst[dst_index] = src[src_index];\<newline>'' @
     ''        } else if (clamp_mode == simdgroup_async_copy_clamp_mode::clamp_to_edge &&\<newline>'' @
     ''                   src_tile_dimensions.x > 0 && src_tile_dimensions.y > 0) {\<newline>'' @
     ''          ushort sx = min(x, ushort(src_tile_dimensions.x - 1));\<newline>'' @
     ''          ushort sy = min(y, ushort(src_tile_dimensions.y - 1));\<newline>'' @
     ''          ulong src_index = ulong(sy) * ulong(src_elements_per_row) + ulong(sx);\<newline>'' @
     ''          dst[dst_index] = src[src_index];\<newline>'' @
     ''        } else {\<newline>'' @
     ''          dst[dst_index] = T(0);\<newline>'' @
     ''        }\<newline>'' @
     ''      }\<newline>'' @
     ''    }\<newline>'' @
     ''  }\<newline>'' @
     ''\<newline>'' @
     ''  template <typename T>\<newline>'' @
     ''  METAL_FUNC void async_copy(\<newline>'' @
     ''    // Destination\<newline>'' @
     ''    device T *dst,\<newline>'' @
     ''    uint dst_elements_per_row,\<newline>'' @
     ''    ushort2 dst_tile_dimensions,\<newline>'' @
     ''\<newline>'' @
     ''    // Source\<newline>'' @
     ''    const threadgroup T *src,\<newline>'' @
     ''    ushort src_elements_per_row,\<newline>'' @
     ''    ushort2 src_tile_dimensions,\<newline>'' @
     ''\<newline>'' @
     ''    // Other\<newline>'' @
     ''    bool transpose_matrix = false\<newline>'' @
     ''  ) thread {\<newline>'' @
     ''    if (transpose_matrix) {\<newline>'' @
     ''      src_tile_dimensions = src_tile_dimensions.yx;\<newline>'' @
     ''      dst_tile_dimensions = dst_tile_dimensions.yx;\<newline>'' @
     ''    }\<newline>'' @
     ''\<newline>'' @
     ''    // Copy the overlap; avoid OOB if someone passes mismatched tile dims.\<newline>'' @
     ''    ushort tile_x = min(dst_tile_dimensions.x, src_tile_dimensions.x);\<newline>'' @
     ''    ushort tile_y = min(dst_tile_dimensions.y, src_tile_dimensions.y);\<newline>'' @
     ''\<newline>'' @
     ''    for (ushort y = 0; y < tile_y; ++y) {\<newline>'' @
     ''      for (ushort x = 0; x < tile_x; ++x) {\<newline>'' @
     ''        ulong dst_index = ulong(y) * ulong(dst_elements_per_row) + ulong(x);\<newline>'' @
     ''        ulong src_index = ulong(y) * ulong(src_elements_per_row) + ulong(x);\<newline>'' @
     ''        dst[dst_index] = src[src_index];\<newline>'' @
     ''      }\<newline>'' @
     ''    }\<newline>'' @
     ''  }\<newline>'' @
     ''\<newline>'' @
     ''  METAL_FUNC static void wait(int /*count*/, thread simdgroup_event* /*events*/) {\<newline>'' @
     ''    // No-op for synchronous implementation.\<newline>'' @
     ''  }\<newline>'' @
     ''};\<newline>'' @
     ''\<newline>'' @
     ''#endif // __METAL_SIMDGROUP_EVENT''"


subsection \<open>The emitted address expression, read as arithmetic\<close>

text \<open>
  \<^verbatim>\<open>createAddress\<close> returns text.  The expressions it can return are built from the two
  components of \<^verbatim>\<open>matrix_origin\<close> (both \<^verbatim>\<open>ushort\<close>), a decimal literal, the parameter
  \<^verbatim>\<open>elements_per_row\<close> (of the offset type) and a conversion to the offset type.
\<close>

datatype int_expr = OriginX | OriginY | Literal int | IAdd int_expr int_expr

datatype offset_expr =
  Cast int_expr | ElementsPerRow | OMul offset_expr offset_expr | OAdd offset_expr offset_expr

fun render_int :: "int_expr \<Rightarrow> string" where
  "render_int OriginX = ''matrix_origin.x''"
| "render_int OriginY = ''matrix_origin.y''"
| "render_int (Literal k) = to_string k"
| "render_int (IAdd a b) = render_int a @ '' + '' @ render_int b"

text \<open>
  Products are only ever rendered as the left operand of a sum, where C++ needs no
  parentheses.
\<close>

fun render :: "AddressSpace \<Rightarrow> offset_expr \<Rightarrow> string" where
  "render space (Cast e) = offsetType space @ ''('' @ render_int e @ '')''"
| "render space ElementsPerRow = ''elements_per_row''"
| "render space (OMul a b) = render space a @ '' * '' @ render space b"
| "render space (OAdd a b) = render space a @ '' + '' @ render space b"

text \<open>The two shapes of address, for element \<open>k\<close> of the lane's pair.\<close>

definition transposedAddress :: "int \<Rightarrow> offset_expr" where
  "transposedAddress k = OAdd (OMul (Cast (IAdd OriginX (Literal k))) ElementsPerRow) (Cast OriginY)"

definition nonTransposedAddress :: "int \<Rightarrow> offset_expr" where
  "nonTransposedAddress k = OAdd (OMul (Cast OriginY) ElementsPerRow) (Cast (IAdd OriginX (Literal k)))"

text \<open>
  The value of such an expression, by the types C++ gives its parts.

  Inside a conversion, \<^verbatim>\<open>matrix_origin.x + 1\<close> adds a \<^verbatim>\<open>ushort\<close> and an \<^verbatim>\<open>int\<close>
  literal: the sum is an \<^verbatim>\<open>int\<close>.  An \<^verbatim>\<open>int\<close> result outside the 32-bit range is
  undefined, which is \<open>None\<close> here.
\<close>

definition check_int :: "int \<Rightarrow> int option" where
  "check_int v = (if - (2 ^ 31) \<le> v \<and> v < 2 ^ 31 then Some v else None)"

fun value_int :: "ushort2 \<Rightarrow> int_expr \<Rightarrow> int option" where
  "value_int matrix_origin OriginX = Some (uint (x_of matrix_origin))"
| "value_int matrix_origin OriginY = Some (uint (y_of matrix_origin))"
| "value_int matrix_origin (Literal k) = check_int k"
| "value_int matrix_origin (IAdd a b) =
     (case (value_int matrix_origin a, value_int matrix_origin b) of
        (Some va, Some vb) \<Rightarrow> check_int (va + vb)
      | _ \<Rightarrow> None)"

text \<open>
  The offset type is \<^verbatim>\<open>uint\<close> for \<^verbatim>\<open>device\<close> and \<^verbatim>\<open>ushort\<close> for \<^verbatim>\<open>threadgroup\<close>;
  a conversion to it reduces modulo \<open>2^32\<close> or \<open>2^16\<close>.
\<close>

fun offset_bits :: "AddressSpace \<Rightarrow> nat" where
  "offset_bits device = 32"
| "offset_bits threadgroup = 16"

definition convert :: "AddressSpace \<Rightarrow> int \<Rightarrow> int" where
  "convert space v = v mod 2 ^ offset_bits space"

text \<open>
  The operands of \<^verbatim>\<open>*\<close> and \<^verbatim>\<open>+\<close> have the offset type.  Two \<^verbatim>\<open>uint\<close> operands
  give a \<^verbatim>\<open>uint\<close>, reduced modulo \<open>2^32\<close>.  Two \<^verbatim>\<open>ushort\<close> operands are promoted to
  \<^verbatim>\<open>int\<close> and give an \<^verbatim>\<open>int\<close>, which is not reduced: the expression
  \<^verbatim>\<open>ushort(..) * elements_per_row + ushort(..)\<close> is an \<^verbatim>\<open>int\<close>.
\<close>

fun binary_result :: "AddressSpace \<Rightarrow> int \<Rightarrow> int option" where
  "binary_result device v = Some (v mod 2 ^ 32)"
| "binary_result threadgroup v = check_int v"

fun expression_value :: "AddressSpace \<Rightarrow> ushort2 \<Rightarrow> int \<Rightarrow> offset_expr \<Rightarrow> int option" where
  "expression_value space matrix_origin elements_per_row (Cast e) =
     map_option (convert space) (value_int matrix_origin e)"
| "expression_value space matrix_origin elements_per_row ElementsPerRow =
     Some (convert space elements_per_row)"
| "expression_value space matrix_origin elements_per_row (OMul a b) =
     (case (expression_value space matrix_origin elements_per_row a,
            expression_value space matrix_origin elements_per_row b) of
        (Some va, Some vb) \<Rightarrow> binary_result space (va * vb)
      | _ \<Rightarrow> None)"
| "expression_value space matrix_origin elements_per_row (OAdd a b) =
     (case (expression_value space matrix_origin elements_per_row a,
            expression_value space matrix_origin elements_per_row b) of
        (Some va, Some vb) \<Rightarrow> binary_result space (va + vb)
      | _ \<Rightarrow> None)"

text \<open>
  What becomes of the value depends on the statement around the expression.  The
  two-part access declares \<^verbatim>\<open>uint address0 = ...\<close> or \<^verbatim>\<open>ushort address0 = ...\<close>: the
  value is converted to the offset type.  The one-part access declares
  \<^verbatim>\<open>auto combinedAddress = ...\<close>: the value keeps the type of the expression, and in
  \<^verbatim>\<open>threadgroup\<close> memory that is the unreduced \<^verbatim>\<open>int\<close>.
\<close>

definition declared_address :: "AddressSpace \<Rightarrow> ushort2 \<Rightarrow> int \<Rightarrow> offset_expr \<Rightarrow> int option" where
  "declared_address space matrix_origin elements_per_row e =
     map_option (convert space) (expression_value space matrix_origin elements_per_row e)"

definition combinedAddress :: "AddressSpace \<Rightarrow> ushort2 \<Rightarrow> int \<Rightarrow> int option" where
  "combinedAddress space matrix_origin elements_per_row =
     expression_value space matrix_origin elements_per_row (nonTransposedAddress 0)"

text \<open>
  The same expressions in the arithmetic that the address distinctness property
  names: every conversion and every operation reduced modulo \<open>2^bits\<close>.
\<close>

fun wrapped_value :: "nat \<Rightarrow> ushort2 \<Rightarrow> int \<Rightarrow> offset_expr \<Rightarrow> int option" where
  "wrapped_value bits matrix_origin elements_per_row (Cast e) =
     map_option (\<lambda>v. v mod 2 ^ bits) (value_int matrix_origin e)"
| "wrapped_value bits matrix_origin elements_per_row ElementsPerRow =
     Some (elements_per_row mod 2 ^ bits)"
| "wrapped_value bits matrix_origin elements_per_row (OMul a b) =
     (case (wrapped_value bits matrix_origin elements_per_row a,
            wrapped_value bits matrix_origin elements_per_row b) of
        (Some va, Some vb) \<Rightarrow> Some ((va * vb) mod 2 ^ bits)
      | _ \<Rightarrow> None)"
| "wrapped_value bits matrix_origin elements_per_row (OAdd a b) =
     (case (wrapped_value bits matrix_origin elements_per_row a,
            wrapped_value bits matrix_origin elements_per_row b) of
        (Some va, Some vb) \<Rightarrow> Some ((va + vb) mod 2 ^ bits)
      | _ \<Rightarrow> None)"

text \<open>The address formulas as the spec writes them, over the integers.\<close>

definition spec_transposedAddress :: "ushort2 \<Rightarrow> int \<Rightarrow> int \<Rightarrow> int" where
  "spec_transposedAddress origin stride k =
     (uint (x_of origin) + k) * stride + uint (y_of origin)"

definition spec_nonTransposedAddress :: "ushort2 \<Rightarrow> int \<Rightarrow> int \<Rightarrow> int" where
  "spec_nonTransposedAddress origin stride k =
     uint (y_of origin) * stride + (uint (x_of origin) + k)"

text \<open>
  The number of values of the type of the expression: \<open>2^32\<close> for \<^verbatim>\<open>uint\<close>, and
  \<open>2^31\<close> non-negative ones for \<^verbatim>\<open>int\<close>.
\<close>

fun expression_limit :: "AddressSpace \<Rightarrow> int" where
  "expression_limit device = 2 ^ 32"
| "expression_limit threadgroup = 2 ^ 31"

subsection \<open>The emitted conditional, read as a choice of block\<close>






text \<open>What \<^verbatim>\<open>insertBlockContents\<close> makes of one fragment.\<close>

definition statement :: "string \<Rightarrow> string" where
  "statement line = (if list_all isspace line then ''  '' else ''  '' @ line @ '';'')"

section \<open>The tile copies of \<^verbatim>\<open>simdgroup_event\<close>\<close>

text \<open>
  A pointer into \<^verbatim>\<open>device\<close> or \<^verbatim>\<open>threadgroup\<close> memory is modelled by the array behind
  it: a function from the element index to the element.  The two address spaces are
  disjoint, so writing through \<^verbatim>\<open>dst\<close> never changes what \<^verbatim>\<open>src\<close> reads.
\<close>

type_synonym 'a array = "nat \<Rightarrow> 'a"

datatype simdgroup_async_copy_clamp_mode = clamp_to_zero | clamp_to_edge

text \<open>
  \<^verbatim>\<open>for (ushort i = first; i < bound; ++i) body\<close>, where \<open>body\<close> changes the state but
  not the counter.
\<close>

function ushort_for :: "ushort \<Rightarrow> ushort \<Rightarrow> (ushort \<Rightarrow> 's \<Rightarrow> 's) \<Rightarrow> 's \<Rightarrow> 's" where
  "ushort_for i bound body s =
     (if i < bound then ushort_for (i + 1) bound body (body i s) else s)"
  by pat_completeness auto
termination
proof (relation "measure (\<lambda>(i, bound, body, s). unat bound - unat i)")
  fix i bound :: ushort and body :: "ushort \<Rightarrow> 's \<Rightarrow> 's" and s :: 's
  assume "i < bound"
  then have "unat i < unat bound"
    by (simp add: word_less_nat_alt)
  moreover have "unat bound < 2 ^ LENGTH(16)"
    by (rule unsigned_less)
  ultimately have "unat i + unat (1 :: ushort) < 2 ^ LENGTH(16)"
    by simp
  then have "unat (i + 1) = unat i + unat (1 :: ushort)"
    by (simp only: unat_add_lem)
  with \<open>unat i < unat bound\<close>
  show "((i + 1, bound, body, body i s), (i, bound, body, s))
      \<in> measure (\<lambda>(i, bound, body, s). unat bound - unat i)"
    by simp
qed simp

declare ushort_for.simps [simp del]

text \<open>
  The forward copy, \<^verbatim>\<open>device\<close> to \<^verbatim>\<open>threadgroup\<close>: the statement of the inner loop
  for the cell \<open>(x, y)\<close>.
  \<^verbatim>\<open>
  bool in_bounds = (x < src_tile_dimensions.x) && (y < src_tile_dimensions.y);
  ulong dst_index = ulong(y) * ulong(dst_elements_per_row) + ulong(x);
  if (in_bounds) {
    ulong src_index = ulong(y) * ulong(src_elements_per_row) + ulong(x);
    dst[dst_index] = src[src_index];
  } else if (clamp_mode == simdgroup_async_copy_clamp_mode::clamp_to_edge &&
             src_tile_dimensions.x > 0 && src_tile_dimensions.y > 0) {
    ushort sx = min(x, ushort(src_tile_dimensions.x - 1));
    ushort sy = min(y, ushort(src_tile_dimensions.y - 1));
    ulong src_index = ulong(sy) * ulong(src_elements_per_row) + ulong(sx);
    dst[dst_index] = src[src_index];
  } else {
    dst[dst_index] = T(0);
  }
  \<close>
\<close>

definition forward_cell ::
  "ushort \<Rightarrow> 'a::zero array \<Rightarrow> uint \<Rightarrow> ushort2 \<Rightarrow> simdgroup_async_copy_clamp_mode \<Rightarrow>
   ushort \<Rightarrow> ushort \<Rightarrow> 'a array \<Rightarrow> 'a array" where
  "forward_cell dst_elements_per_row src src_elements_per_row src_tile_dimensions clamp_mode y x dst =
     (let in_bounds = (x < x_of src_tile_dimensions \<and> y < y_of src_tile_dimensions);
          dst_index = (ucast y :: ulong) * ucast dst_elements_per_row + ucast x
      in if in_bounds
         then (let src_index = (ucast y :: ulong) * ucast src_elements_per_row + ucast x
               in dst(unat dst_index := src (unat src_index)))
         else if clamp_mode = clamp_to_edge \<and>
                 x_of src_tile_dimensions > 0 \<and> y_of src_tile_dimensions > 0
         then (let sx = min x (x_of src_tile_dimensions - 1);
                   sy = min y (y_of src_tile_dimensions - 1);
                   src_index = (ucast sy :: ulong) * ucast src_elements_per_row + ucast sx
               in dst(unat dst_index := src (unat src_index)))
         else dst(unat dst_index := 0))"

definition async_copy_to_threadgroup ::
  "'a::zero array \<Rightarrow> ushort \<Rightarrow> ushort2 \<Rightarrow> 'a array \<Rightarrow> uint \<Rightarrow> ushort2 \<Rightarrow> bool \<Rightarrow>
   simdgroup_async_copy_clamp_mode \<Rightarrow> 'a array" where
  "async_copy_to_threadgroup dst dst_elements_per_row dst_tile_dimensions
       src src_elements_per_row src_tile_dimensions transpose_matrix clamp_mode =
     (let src_tile_dimensions = (if transpose_matrix then yx src_tile_dimensions
                                 else src_tile_dimensions);
          dst_tile_dimensions = (if transpose_matrix then yx dst_tile_dimensions
                                 else dst_tile_dimensions)
      in ushort_for 0 (y_of dst_tile_dimensions)
           (\<lambda>y. ushort_for 0 (x_of dst_tile_dimensions)
                  (forward_cell dst_elements_per_row src src_elements_per_row
                     src_tile_dimensions clamp_mode y))
           dst)"

text \<open>
  The reverse copy, \<^verbatim>\<open>threadgroup\<close> to \<^verbatim>\<open>device\<close>.
  \<^verbatim>\<open>
  ulong dst_index = ulong(y) * ulong(dst_elements_per_row) + ulong(x);
  ulong src_index = ulong(y) * ulong(src_elements_per_row) + ulong(x);
  dst[dst_index] = src[src_index];
  \<close>
\<close>

definition reverse_cell ::
  "uint \<Rightarrow> 'a array \<Rightarrow> ushort \<Rightarrow> ushort \<Rightarrow> ushort \<Rightarrow> 'a array \<Rightarrow> 'a array" where
  "reverse_cell dst_elements_per_row src src_elements_per_row y x dst =
     (let dst_index = (ucast y :: ulong) * ucast dst_elements_per_row + ucast x;
          src_index = (ucast y :: ulong) * ucast src_elements_per_row + ucast x
      in dst(unat dst_index := src (unat src_index)))"

definition async_copy_to_device ::
  "'a array \<Rightarrow> uint \<Rightarrow> ushort2 \<Rightarrow> 'a array \<Rightarrow> ushort \<Rightarrow> ushort2 \<Rightarrow> bool \<Rightarrow> 'a array" where
  "async_copy_to_device dst dst_elements_per_row dst_tile_dimensions
       src src_elements_per_row src_tile_dimensions transpose_matrix =
     (let src_tile_dimensions = (if transpose_matrix then yx src_tile_dimensions
                                 else src_tile_dimensions);
          dst_tile_dimensions = (if transpose_matrix then yx dst_tile_dimensions
                                 else dst_tile_dimensions);
          tile_x = min (x_of dst_tile_dimensions) (x_of src_tile_dimensions);
          tile_y = min (y_of dst_tile_dimensions) (y_of src_tile_dimensions)
      in ushort_for 0 tile_y
           (\<lambda>y. ushort_for 0 tile_x
                  (reverse_cell dst_elements_per_row src src_elements_per_row y))
           dst)"

subsection \<open>The copies as the spec words them\<close>

text \<open>
  The extent of a tile along each axis, after the swap that \<^verbatim>\<open>transpose_matrix\<close>
  asks for.
\<close>

definition tile_width :: "bool \<Rightarrow> ushort2 \<Rightarrow> nat" where
  "tile_width transpose_matrix d = unat (x_of (if transpose_matrix then yx d else d))"

definition tile_height :: "bool \<Rightarrow> ushort2 \<Rightarrow> nat" where
  "tile_height transpose_matrix d = unat (y_of (if transpose_matrix then yx d else d))"

text \<open>
  The cells of a tile of the given width and height, row by row, as pairs
  (column, row).
\<close>

definition tile_cells :: "nat \<Rightarrow> nat \<Rightarrow> (nat \<times> nat) list" where
  "tile_cells width height = concat (map (\<lambda>y. map (\<lambda>x. (x, y)) [0..<width]) [0..<height])"

text \<open>
  The spec's rule for the forward copy: a cell inside the source extent takes the
  source cell of the same coordinates; otherwise, under clamp-to-edge with both source
  extents positive, the nearest source cell; otherwise zero.
\<close>

definition spec_forward_value ::
  "'a::zero array \<Rightarrow> nat \<Rightarrow> nat \<Rightarrow> nat \<Rightarrow> simdgroup_async_copy_clamp_mode \<Rightarrow> nat \<times> nat \<Rightarrow> 'a" where
  "spec_forward_value src src_stride src_width src_height clamp_mode cell =
     (case cell of (x, y) \<Rightarrow>
        if x < src_width \<and> y < src_height then src (y * src_stride + x)
        else if clamp_mode = clamp_to_edge \<and> 0 < src_width \<and> 0 < src_height
        then src (min y (src_height - 1) * src_stride + min x (src_width - 1))
        else 0)"

definition cell_index :: "nat \<Rightarrow> nat \<times> nat \<Rightarrow> nat" where
  "cell_index stride cell = (case cell of (x, y) \<Rightarrow> y * stride + x)"

text \<open>Writing the cells of a list in order, each with the value the rule gives it.\<close>

definition write_cells :: "(nat \<times> nat \<Rightarrow> nat) \<Rightarrow> (nat \<times> nat \<Rightarrow> 'a) \<Rightarrow> 'a array \<Rightarrow> (nat \<times> nat) list \<Rightarrow> 'a array" where
  "write_cells index val dst cells = foldl (\<lambda>m c. m(index c := val c)) dst cells"

section \<open>\<^verbatim>\<open>apply_offset\<close> for \<^verbatim>\<open>device\<close> memory\<close>

text \<open>
  \<^verbatim>\<open>
  if (transpose_matrix) {
    return src + ulong(matrix_origin.x * elements_per_row) + matrix_origin.y;
  } else {
    return src + ulong(matrix_origin.y * elements_per_row) + matrix_origin.x;
  }
  \<close>
  with \<^verbatim>\<open>uint elements_per_row\<close> and \<^verbatim>\<open>uint2 matrix_origin\<close>.  A pointer is the index
  of the element it points to.
\<close>

definition apply_offset :: "nat \<Rightarrow> uint \<Rightarrow> uint2 \<Rightarrow> bool \<Rightarrow> nat" where
  "apply_offset src elements_per_row matrix_origin transpose_matrix =
     (if transpose_matrix
      then src + unat (ucast (ux_of matrix_origin * elements_per_row) :: ulong)
               + unat (uy_of matrix_origin)
      else src + unat (ucast (uy_of matrix_origin * elements_per_row) :: ulong)
               + unat (ux_of matrix_origin))"

section \<open>Properties of the lane layout\<close>

lemma grid_cells_set: "set grid_cells = {0..<8} \<times> {0..<8}"
  by (simp add: grid_cells_def)

text \<open>
  C3, as the code has it: the 32 lanes are mapped to 32 different base positions (not
  16), each position belongs to exactly one lane (not two), and the two-cell runs of
  the 32 lanes cover every cell of the 8 by 8 grid exactly once.
\<close>

theorem morton_order_layout:
  "length (remdups lane_coordinates) = 32 \<and>
   list_all (\<lambda>i. lanes_at (morton_order i) = [i]) lane_indices \<and>
   distinct covered_cells \<and>
   set covered_cells = {0..<8} \<times> {0..<8}"
proof -
  have "length (remdups lane_coordinates) = 32"
    by code_simp
  moreover have "list_all (\<lambda>i. lanes_at (morton_order i) = [i]) lane_indices"
    by code_simp
  moreover have "distinct covered_cells"
    by code_simp
  moreover have "set covered_cells = set grid_cells"
    by code_simp
  ultimately show ?thesis
    by (simp only: grid_cells_set simp_thms)
qed

text \<open>
  C3 as the spec words it fails: the number of different base positions is not 16, and
  the position of lane 0 is not shared by two lanes.
\<close>

theorem morton_order_not_two_to_one:
  "length (remdups lane_coordinates) \<noteq> 16 \<and> length (lanes_at (morton_order 0)) \<noteq> 2"
  by code_simp

section \<open>Properties of \<^verbatim>\<open>apply_offset\<close>\<close>

lemma unat_ucast_ushort_ulong: "unat (ucast (w :: ushort) :: ulong) = unat w"
proof -
  have "unat w < 2 ^ LENGTH(16)"
    by (rule unsigned_less)
  then have "unat w < 2 ^ 64"
    by simp
  then show ?thesis
    by (simp add: unsigned_ucast_eq take_bit_nat_eq_self)
qed

lemma unat_ucast_uint_ulong: "unat (ucast (w :: uint) :: ulong) = unat w"
proof -
  have "unat w < 2 ^ LENGTH(32)"
    by (rule unsigned_less)
  then have "unat w < 2 ^ 64"
    by simp
  then show ?thesis
    by (simp add: unsigned_ucast_eq take_bit_nat_eq_self)
qed

text \<open>
  C10: the product of the origin component and the row stride is reduced modulo
  \<open>2^32\<close> before it is widened, and the other origin component is added to the
  reduced product.  Where the full product reaches \<open>2^32\<close>, the offset differs from
  the one the full product would give.
\<close>

theorem apply_offset_wraps:
  "apply_offset src elements_per_row (uint2 ox oy) True
     = src + (unat ox * unat elements_per_row) mod 2 ^ 32 + unat oy \<and>
   apply_offset src elements_per_row (uint2 ox oy) False
     = src + (unat oy * unat elements_per_row) mod 2 ^ 32 + unat ox \<and>
   (2 ^ 32 \<le> unat ox * unat elements_per_row \<longrightarrow>
      apply_offset src elements_per_row (uint2 ox oy) True
        \<noteq> src + unat ox * unat elements_per_row + unat oy) \<and>
   (2 ^ 32 \<le> unat oy * unat elements_per_row \<longrightarrow>
      apply_offset src elements_per_row (uint2 ox oy) False
        \<noteq> src + unat oy * unat elements_per_row + unat ox)"
proof -
  have prod: "unat (ucast (a * b :: uint) :: ulong) = (unat a * unat b) mod 2 ^ 32" for a b
    by (simp add: unat_ucast_uint_ulong unat_word_ariths)
  have wrap: "2 ^ 32 \<le> n \<Longrightarrow> n mod 2 ^ 32 \<noteq> n" for n :: nat
    by (metis mod_less_divisor not_le zero_less_numeral zero_less_power)
  show ?thesis
    using wrap [of "unat ox * unat elements_per_row"] wrap [of "unat oy * unat elements_per_row"]
    by (simp add: apply_offset_def prod)
qed

text \<open>
  At stride 65536 and origin (65536, 7) the transposed product is \<open>2^32\<close> and the
  offset is 7; at stride 65537 and origin (3, 65536) the other product is
  \<open>2^32 + 65536\<close> and the offset is 65536 + 3.
\<close>

theorem apply_offset_wraps_witness:
  "apply_offset 0 65536 (uint2 65536 7) True = 7 \<and>
   apply_offset 0 65537 (uint2 3 65536) False = 65539"
  using apply_offset_wraps [of 0 65536 65536 7] apply_offset_wraps [of 0 65537 3 65536]
  by simp

section \<open>Properties of the generated addresses\<close>

lemma to_string_0: "to_string 0 = ''0''"
  by (simp add: to_string_def to_string_nat.simps [of 0] digit_char_def)

lemma to_string_1: "to_string 1 = ''1''"
  by (simp add: to_string_def to_string_nat.simps [of "Suc 0"] digit_char_def)

lemma createAddress_render:
  "createAddress space True k = render space (transposedAddress k)"
  "createAddress space False k = render space (nonTransposedAddress k)"
  by (simp_all add: createAddress_def transposedAddress_def nonTransposedAddress_def)

text \<open>
  Where the expressions stand in the generated body: the two-part access starts with
  the declarations of \<^verbatim>\<open>address0\<close> and \<^verbatim>\<open>address1\<close> in the offset type, the
  one-part access with the declaration of \<^verbatim>\<open>combinedAddress\<close>.
\<close>

lemma two_part_address_lines:
  "take 2 (createTwoPartAccess act space bf16 transposed) =
     [offsetType space @ '' address0 = '' @ createAddress space transposed 0,
      offsetType space @ '' address1 = '' @ createAddress space transposed 1]"
  by (simp add: createTwoPartAccess_def to_string_0 to_string_1 Let_def)

lemma one_part_address_line:
  "hd (createOnePartAccess act space bf16) =
     ''auto combinedAddress = '' @ createAddress space False 0"
  by (simp add: createOnePartAccess_def Let_def)

subsection \<open>The value of the emitted expressions\<close>

lemma check_int_Some: "0 \<le> v \<Longrightarrow> v < 2 ^ 31 \<Longrightarrow> check_int v = Some v"
  by (simp add: check_int_def)

lemma uint_ushort_bounds: "0 \<le> uint (w :: ushort)" "uint (w :: ushort) < 65536"
  using uint_lt2p [of w] by simp_all

lemma value_int_x:
  assumes "k \<in> {0, 1}"
  shows "value_int origin (IAdd OriginX (Literal k)) = Some (uint (x_of origin) + k)"
proof -
  have "0 \<le> uint (x_of origin)" "uint (x_of origin) < 65536"
    by (rule uint_ushort_bounds)+
  moreover from assms have "k = 0 \<or> k = 1"
    by auto
  ultimately have "- 2147483648 \<le> k \<and> k < 2147483648 \<and>
      - 2147483648 \<le> uint (x_of origin) + k \<and> uint (x_of origin) + k < 2147483648"
    by arith
  then show ?thesis
    by (simp add: check_int_def)
qed

lemma wrapped_transposed:
  assumes "k \<in> {0, 1}"
  shows "wrapped_value bits origin stride (transposedAddress k)
           = Some (spec_transposedAddress origin stride k mod 2 ^ bits)"
  by (simp add: transposedAddress_def spec_transposedAddress_def value_int_x [OF assms] mod_simps del: value_int.simps(3) value_int.simps(4))

lemma wrapped_nonTransposed:
  assumes "k \<in> {0, 1}"
  shows "wrapped_value bits origin stride (nonTransposedAddress k)
           = Some (spec_nonTransposedAddress origin stride k mod 2 ^ bits)"
  by (simp add: nonTransposedAddress_def spec_nonTransposedAddress_def value_int_x [OF assms]
      mod_simps del: value_int.simps(3) value_int.simps(4))

lemma device_transposed:
  assumes "k \<in> {0, 1}"
  shows "expression_value device origin stride (transposedAddress k)
           = Some (spec_transposedAddress origin stride k mod 2 ^ 32)"
  by (simp add: transposedAddress_def spec_transposedAddress_def value_int_x [OF assms]
      convert_def mod_simps del: value_int.simps(3) value_int.simps(4))

lemma device_nonTransposed:
  assumes "k \<in> {0, 1}"
  shows "expression_value device origin stride (nonTransposedAddress k)
           = Some (spec_nonTransposedAddress origin stride k mod 2 ^ 32)"
  by (simp add: nonTransposedAddress_def spec_nonTransposedAddress_def value_int_x [OF assms]
      convert_def mod_simps del: value_int.simps(3) value_int.simps(4))

lemma promoted_sum:
  fixes p q :: int
  assumes "0 \<le> p" "0 \<le> q"
  shows "(case (check_int p, Some q) of (Some va, Some vb) \<Rightarrow> binary_result threadgroup (va + vb)
          | _ \<Rightarrow> None) = check_int (p + q)"
    and "(case (Some q, check_int p) of (Some va, Some vb) \<Rightarrow> binary_result threadgroup (va + vb)
          | _ \<Rightarrow> None) = check_int (q + p)"
  using assms by (auto simp add: check_int_def)

lemma promoted_product:
  fixes p q :: int
  shows "(case (Some p, Some q) of (Some va, Some vb) \<Rightarrow> binary_result threadgroup (va * vb)
          | _ \<Rightarrow> None) = check_int (p * q)"
  by simp

lemma threadgroup_operands:
  assumes "k \<in> {0, 1}" "0 \<le> stride" "stride < 2 ^ 16"
  shows "expression_value threadgroup origin stride (Cast (IAdd OriginX (Literal k)))
           = Some ((uint (x_of origin) + k) mod 2 ^ 16)"
    and "expression_value threadgroup origin stride (Cast OriginY) = Some (uint (y_of origin))"
    and "expression_value threadgroup origin stride ElementsPerRow = Some stride"
  using assms(2,3) uint_ushort_bounds [of "y_of origin"]
  by (simp_all add: value_int_x [OF assms(1)] convert_def
      del: value_int.simps(3) value_int.simps(4))

lemma threadgroup_transposed:
  assumes "k \<in> {0, 1}" "0 \<le> stride" "stride < 2 ^ 16"
  shows "expression_value threadgroup origin stride (transposedAddress k)
           = check_int ((uint (x_of origin) + k) mod 2 ^ 16 * stride + uint (y_of origin))"
proof -
  have "0 \<le> (uint (x_of origin) + k) mod 2 ^ 16 * stride" "0 \<le> uint (y_of origin)"
    using assms(2) by simp_all
  then show ?thesis
    unfolding transposedAddress_def expression_value.simps(3,4) threadgroup_operands [OF assms]
      promoted_product
    by (rule promoted_sum(1))
qed

lemma threadgroup_nonTransposed:
  assumes "k \<in> {0, 1}" "0 \<le> stride" "stride < 2 ^ 16"
  shows "expression_value threadgroup origin stride (nonTransposedAddress k)
           = check_int (uint (y_of origin) * stride + (uint (x_of origin) + k) mod 2 ^ 16)"
proof -
  have "0 \<le> uint (y_of origin) * stride" "0 \<le> (uint (x_of origin) + k) mod 2 ^ 16"
    using assms(2) by simp_all
  then show ?thesis
    unfolding nonTransposedAddress_def expression_value.simps(3,4) threadgroup_operands [OF assms]
      promoted_product
    by (rule promoted_sum(1))
qed

subsection \<open>Distinct addresses\<close>

lemma mod_shift_distinct:
  fixes a s m :: int
  assumes "0 < s" "s < m"
  shows "a mod m \<noteq> (a + s) mod m"
proof
  assume "a mod m = (a + s) mod m"
  then have "m dvd a - (a + s)"
    by (simp only: mod_eq_dvd_iff)
  then have "m dvd s"
    by simp
  with assms(1) have "m \<le> s"
    using zdvd_imp_le [of m s] by simp
  with assms(2) show False
    by simp
qed


lemma spec_nonneg:
  assumes "k \<in> {0, 1}" "0 \<le> stride"
  shows "0 \<le> spec_transposedAddress origin stride k" "0 \<le> spec_nonTransposedAddress origin stride k"
  using assms by (auto simp add: spec_transposedAddress_def spec_nonTransposedAddress_def)

lemma check_int_eq_Some: "check_int v = Some w \<Longrightarrow> w = v"
  by (simp add: check_int_def split: if_splits)

lemma mod_inner:
  fixes a s y m :: int
  shows "(a mod m * s + y) mod m = (a * s + y) mod m"
    and "(y * s + a mod m) mod m = (y * s + a) mod m"
  by (metis mod_add_left_eq mod_mult_left_eq) (metis mod_add_right_eq)

lemma narrow_mod:
  "((uint (x_of origin) + k) mod m * stride + uint (y_of origin)) mod m
     = spec_transposedAddress origin stride k mod m"
  "(uint (y_of origin) * stride + (uint (x_of origin) + k) mod m) mod m
     = spec_nonTransposedAddress origin stride k mod m"
  by (simp_all only: spec_transposedAddress_def spec_nonTransposedAddress_def mod_inner)

lemma declared_transposed:
  assumes "k \<in> {0, 1}" "0 \<le> stride" "stride < 2 ^ offset_bits space"
    and "declared_address space origin stride (transposedAddress k) = Some v"
  shows "v = spec_transposedAddress origin stride k mod 2 ^ offset_bits space"
proof (cases space)
  case device
  with assms(4) show ?thesis
    by (auto simp add: declared_address_def device_transposed [OF assms(1)] convert_def)
next
  case threadgroup
  with assms(2,3) have "expression_value threadgroup origin stride (transposedAddress k)
      = check_int ((uint (x_of origin) + k) mod 2 ^ 16 * stride + uint (y_of origin))"
    by (intro threadgroup_transposed assms(1)) simp_all
  with assms(4) threadgroup show ?thesis
    by (auto simp add: declared_address_def convert_def
        narrow_mod [where m = "2 ^ 16", simplified] dest!: check_int_eq_Some)
qed

lemma declared_nonTransposed:
  assumes "k \<in> {0, 1}" "0 \<le> stride" "stride < 2 ^ offset_bits space"
    and "declared_address space origin stride (nonTransposedAddress k) = Some v"
  shows "v = spec_nonTransposedAddress origin stride k mod 2 ^ offset_bits space"
proof (cases space)
  case device
  with assms(4) show ?thesis
    by (auto simp add: declared_address_def device_nonTransposed [OF assms(1)] convert_def)
next
  case threadgroup
  with assms(2,3) have "expression_value threadgroup origin stride (nonTransposedAddress k)
      = check_int (uint (y_of origin) * stride + (uint (x_of origin) + k) mod 2 ^ 16)"
    by (intro threadgroup_nonTransposed assms(1)) simp_all
  with assms(4) threadgroup show ?thesis
    by (auto simp add: declared_address_def convert_def
        narrow_mod [where m = "2 ^ 16", simplified] dest!: check_int_eq_Some)
qed


text \<open>
  C2, as the code has it: for element index \<open>k\<close> in \<open>{0, 1}\<close> and a row stride of the
  offset type, the text \<^verbatim>\<open>createAddress\<close> returns is
  \<open>T(origin.x + k) * stride + T(origin.y)\<close> when the transpose flag is set and
  \<open>T(origin.y) * stride + T(origin.x + k)\<close> when it is not, \<open>T\<close> being the offset type.
  In \<^verbatim>\<open>device\<close> memory the expression has the value of the spec's formula reduced
  modulo \<open>2^32\<close>.  In \<^verbatim>\<open>threadgroup\<close> memory the conversion reduces
  \<open>origin.x + k\<close> modulo \<open>2^16\<close> and the product and the sum are computed in
  \<^verbatim>\<open>int\<close>, unreduced, defined while they stay below \<open>2^31\<close>.  The value is the
  formula itself whenever \<open>origin.x + k\<close> fits the offset type and the formula fits
  the type of the expression; and a variable declared with the offset type holds the
  formula reduced modulo \<open>2^32\<close> or \<open>2^16\<close>.
\<close>

theorem createAddress_formula:
  assumes "k \<in> {0, 1}" and "0 \<le> stride" and "stride < 2 ^ offset_bits space"
  shows "createAddress space True k = render space (transposedAddress k) \<and>
         createAddress space False k = render space (nonTransposedAddress k) \<and>
         expression_value space origin stride (transposedAddress k) =
           (case space of
              device \<Rightarrow> Some (spec_transposedAddress origin stride k mod 2 ^ 32)
            | threadgroup \<Rightarrow>
                check_int ((uint (x_of origin) + k) mod 2 ^ 16 * stride + uint (y_of origin))) \<and>
         expression_value space origin stride (nonTransposedAddress k) =
           (case space of
              device \<Rightarrow> Some (spec_nonTransposedAddress origin stride k mod 2 ^ 32)
            | threadgroup \<Rightarrow>
                check_int (uint (y_of origin) * stride + (uint (x_of origin) + k) mod 2 ^ 16)) \<and>
         (uint (x_of origin) + k < 2 ^ offset_bits space \<and>
          spec_transposedAddress origin stride k < expression_limit space \<longrightarrow>
            expression_value space origin stride (transposedAddress k)
              = Some (spec_transposedAddress origin stride k)) \<and>
         (uint (x_of origin) + k < 2 ^ offset_bits space \<and>
          spec_nonTransposedAddress origin stride k < expression_limit space \<longrightarrow>
            expression_value space origin stride (nonTransposedAddress k)
              = Some (spec_nonTransposedAddress origin stride k)) \<and>
         (\<forall>v. declared_address space origin stride (transposedAddress k) = Some v \<longrightarrow>
              v = spec_transposedAddress origin stride k mod 2 ^ offset_bits space) \<and>
         (\<forall>v. declared_address space origin stride (nonTransposedAddress k) = Some v \<longrightarrow>
              v = spec_nonTransposedAddress origin stride k mod 2 ^ offset_bits space)"
proof -
  note nonneg = spec_nonneg [OF assms(1,2), of origin]
  have x: "0 \<le> uint (x_of origin) + k"
    using assms(1) by auto
  have c1: "createAddress space True k = render space (transposedAddress k)"
    and c2: "createAddress space False k = render space (nonTransposedAddress k)"
    by (rule createAddress_render)+
  have c3: "expression_value space origin stride (transposedAddress k) =
       (case space of
          device \<Rightarrow> Some (spec_transposedAddress origin stride k mod 2 ^ 32)
        | threadgroup \<Rightarrow>
            check_int ((uint (x_of origin) + k) mod 2 ^ 16 * stride + uint (y_of origin)))"
  proof (cases space)
    case device
    then show ?thesis
      by (simp only: device_transposed [OF assms(1)] AddressSpace.case)
  next
    case threadgroup
    with assms(3) have "stride < 2 ^ 16"
      by simp
    with threadgroup show ?thesis
      by (simp only: threadgroup_transposed [OF assms(1,2)] AddressSpace.case)
  qed
  have c4: "expression_value space origin stride (nonTransposedAddress k) =
       (case space of
          device \<Rightarrow> Some (spec_nonTransposedAddress origin stride k mod 2 ^ 32)
        | threadgroup \<Rightarrow>
            check_int (uint (y_of origin) * stride + (uint (x_of origin) + k) mod 2 ^ 16))"
  proof (cases space)
    case device
    then show ?thesis
      by (simp only: device_nonTransposed [OF assms(1)] AddressSpace.case)
  next
    case threadgroup
    with assms(3) have "stride < 2 ^ 16"
      by simp
    with threadgroup show ?thesis
      by (simp only: threadgroup_nonTransposed [OF assms(1,2)] AddressSpace.case)
  qed
  have c5: "uint (x_of origin) + k < 2 ^ offset_bits space \<and>
          spec_transposedAddress origin stride k < expression_limit space \<longrightarrow>
            expression_value space origin stride (transposedAddress k)
              = Some (spec_transposedAddress origin stride k)"
  proof (intro impI, elim conjE)
    assume fits: "uint (x_of origin) + k < 2 ^ offset_bits space"
      and limit: "spec_transposedAddress origin stride k < expression_limit space"
    show "expression_value space origin stride (transposedAddress k)
            = Some (spec_transposedAddress origin stride k)"
    proof (cases space)
      case device
      with limit nonneg(1) have "spec_transposedAddress origin stride k mod 2 ^ 32
          = spec_transposedAddress origin stride k"
        by simp
      with device show ?thesis
        by (simp only: device_transposed [OF assms(1)])
    next
      case threadgroup
      with fits x have "(uint (x_of origin) + k) mod 2 ^ 16 = uint (x_of origin) + k"
        by simp
      moreover from threadgroup limit nonneg(1)
      have "check_int (spec_transposedAddress origin stride k)
          = Some (spec_transposedAddress origin stride k)"
        by (intro check_int_Some) simp_all
      moreover from threadgroup assms(3) have "stride < 2 ^ 16"
        by simp
      ultimately show ?thesis
        using threadgroup
        by (simp only: threadgroup_transposed [OF assms(1,2)] spec_transposedAddress_def)
    qed
  qed
  have c6: "uint (x_of origin) + k < 2 ^ offset_bits space \<and>
          spec_nonTransposedAddress origin stride k < expression_limit space \<longrightarrow>
            expression_value space origin stride (nonTransposedAddress k)
              = Some (spec_nonTransposedAddress origin stride k)"
  proof (intro impI, elim conjE)
    assume fits: "uint (x_of origin) + k < 2 ^ offset_bits space"
      and limit: "spec_nonTransposedAddress origin stride k < expression_limit space"
    show "expression_value space origin stride (nonTransposedAddress k)
            = Some (spec_nonTransposedAddress origin stride k)"
    proof (cases space)
      case device
      with limit nonneg(2) have "spec_nonTransposedAddress origin stride k mod 2 ^ 32
          = spec_nonTransposedAddress origin stride k"
        by simp
      with device show ?thesis
        by (simp only: device_nonTransposed [OF assms(1)])
    next
      case threadgroup
      with fits x have "(uint (x_of origin) + k) mod 2 ^ 16 = uint (x_of origin) + k"
        by simp
      moreover from threadgroup limit nonneg(2)
      have "check_int (spec_nonTransposedAddress origin stride k)
          = Some (spec_nonTransposedAddress origin stride k)"
        by (intro check_int_Some) simp_all
      moreover from threadgroup assms(3) have "stride < 2 ^ 16"
        by simp
      ultimately show ?thesis
        using threadgroup
        by (simp only: threadgroup_nonTransposed [OF assms(1,2)] spec_nonTransposedAddress_def)
    qed
  qed
  have c7: "\<forall>v. declared_address space origin stride (transposedAddress k) = Some v \<longrightarrow>
              v = spec_transposedAddress origin stride k mod 2 ^ offset_bits space"
    by (intro allI impI) (rule declared_transposed [OF assms])
  have c8: "\<forall>v. declared_address space origin stride (nonTransposedAddress k) = Some v \<longrightarrow>
              v = spec_nonTransposedAddress origin stride k mod 2 ^ offset_bits space"
    by (intro allI impI) (rule declared_nonTransposed [OF assms])
  show ?thesis
    by (rule conjI c1 c2 c3 c4 c5 c6 c7 c8)+
qed

text \<open>
  The emitted text for two of the cases; the values at origin (5, 3) and row stride
  100, \<open>(5 + 1) * 100 + 3\<close> and \<open>3 * 100 + 5\<close>; and at origin (65535, 9) and row
  stride 2 in \<^verbatim>\<open>threadgroup\<close> memory, where \<^verbatim>\<open>combinedAddress\<close> is the
  \<^verbatim>\<open>int\<close> \<open>9 * 2 + 65535\<close> and a \<^verbatim>\<open>ushort\<close> variable would hold 17.
\<close>

theorem createAddress_formula_witness:
  "createAddress device True 1
     = ''uint(matrix_origin.x + 1) * elements_per_row + uint(matrix_origin.y)'' \<and>
   createAddress threadgroup False 0
     = ''ushort(matrix_origin.y) * elements_per_row + ushort(matrix_origin.x + 0)'' \<and>
   expression_value device (ushort2 5 3) 100 (transposedAddress 1) = Some 603 \<and>
   expression_value threadgroup (ushort2 5 3) 100 (nonTransposedAddress 0) = Some 305 \<and>
   combinedAddress threadgroup (ushort2 65535 9) 2 = Some 65553 \<and>
   declared_address threadgroup (ushort2 65535 9) 2 (nonTransposedAddress 0) = Some 17"
proof -
  have one: "(1::int) \<in> {0, 1}" and zero: "(0::int) \<in> {0, 1}"
    by simp_all
  have wide: "(0::int) \<le> 100" "(100::int) < 2 ^ offset_bits device"
    and narrow: "(100::int) < 2 ^ offset_bits threadgroup"
    and two: "(0::int) \<le> 2" "(2::int) < 2 ^ offset_bits threadgroup"
    by simp_all
  from createAddress_formula [OF one wide, of "ushort2 5 3"]
    createAddress_formula [OF zero wide(1) narrow, of "ushort2 5 3"]
    createAddress_formula [OF zero two, of "ushort2 65535 9"]
  show ?thesis
    by (simp add: transposedAddress_def nonTransposedAddress_def to_string_0 to_string_1
        spec_transposedAddress_def spec_nonTransposedAddress_def check_int_def
        combinedAddress_def declared_address_def convert_def)
qed

text \<open>
  C2 as the spec words it fails: in \<^verbatim>\<open>threadgroup\<close> memory at origin (65535, 9),
  row stride 2 and element 1, \<^verbatim>\<open>ushort(matrix_origin.x + 1)\<close> is 0 and the emitted
  expression has the value 9, while \<open>(origin.x + 1) * stride + origin.y\<close> is 131081.
\<close>

theorem createAddress_wraps_origin:
  "createAddress threadgroup True 1
     = ''ushort(matrix_origin.x + 1) * elements_per_row + ushort(matrix_origin.y)'' \<and>
   createAddress threadgroup True 1 = render threadgroup (transposedAddress 1) \<and>
   expression_value threadgroup (ushort2 65535 9) 2 (transposedAddress 1) = Some 9 \<and>
   spec_transposedAddress (ushort2 65535 9) 2 1 = 131081"
  by (simp add: createAddress_def transposedAddress_def to_string_1 spec_transposedAddress_def
      check_int_def convert_def)

text \<open>
  C8: the two-part access declares \<^verbatim>\<open>address0\<close> and \<^verbatim>\<open>address1\<close> with the
  expressions \<^verbatim>\<open>createAddress\<close> returns for elements 0 and 1.  For a row stride
  greater than 1 (and within the offset type) and any origin, evaluated in the
  wrap-around arithmetic of the offset type, these are the spec's formulas modulo
  \<open>2^32\<close> or \<open>2^16\<close>, the two transposed addresses differ and the two
  non-transposed addresses differ; and so do the values the two declared variables
  hold, whenever the C++ computation of both is defined.
\<close>

theorem addresses_distinct:
  assumes "1 < stride" and "stride < 2 ^ offset_bits space"
  shows "take 2 (createTwoPartAccess act space bf16 True) =
           [offsetType space @ '' address0 = '' @ render space (transposedAddress 0),
            offsetType space @ '' address1 = '' @ render space (transposedAddress 1)] \<and>
         take 2 (createTwoPartAccess act space bf16 False) =
           [offsetType space @ '' address0 = '' @ render space (nonTransposedAddress 0),
            offsetType space @ '' address1 = '' @ render space (nonTransposedAddress 1)] \<and>
         createAddress space True 0 = render space (transposedAddress 0) \<and>
         createAddress space True 1 = render space (transposedAddress 1) \<and>
         createAddress space False 0 = render space (nonTransposedAddress 0) \<and>
         createAddress space False 1 = render space (nonTransposedAddress 1) \<and>
         wrapped_value (offset_bits space) origin stride (transposedAddress 0)
           = Some (spec_transposedAddress origin stride 0 mod 2 ^ offset_bits space) \<and>
         wrapped_value (offset_bits space) origin stride (transposedAddress 1)
           = Some (spec_transposedAddress origin stride 1 mod 2 ^ offset_bits space) \<and>
         wrapped_value (offset_bits space) origin stride (nonTransposedAddress 0)
           = Some (spec_nonTransposedAddress origin stride 0 mod 2 ^ offset_bits space) \<and>
         wrapped_value (offset_bits space) origin stride (nonTransposedAddress 1)
           = Some (spec_nonTransposedAddress origin stride 1 mod 2 ^ offset_bits space) \<and>
         wrapped_value (offset_bits space) origin stride (transposedAddress 0)
           \<noteq> wrapped_value (offset_bits space) origin stride (transposedAddress 1) \<and>
         wrapped_value (offset_bits space) origin stride (nonTransposedAddress 0)
           \<noteq> wrapped_value (offset_bits space) origin stride (nonTransposedAddress 1) \<and>
         (\<forall>a0 a1. declared_address space origin stride (transposedAddress 0) = Some a0 \<and>
                  declared_address space origin stride (transposedAddress 1) = Some a1 \<longrightarrow>
                  a0 \<noteq> a1) \<and>
         (\<forall>a0 a1. declared_address space origin stride (nonTransposedAddress 0) = Some a0 \<and>
                  declared_address space origin stride (nonTransposedAddress 1) = Some a1 \<longrightarrow>
                  a0 \<noteq> a1)"
proof -
  let ?m = "2 ^ offset_bits space :: int"
  have zero: "(0::int) \<in> {0, 1}" and one: "(1::int) \<in> {0, 1}"
    by simp_all
  from assms have stride: "0 \<le> stride" "0 < stride"
    by simp_all
  have "1 < ?m"
    by (cases space) simp_all
  have step: "spec_transposedAddress origin stride 1 = spec_transposedAddress origin stride 0 + stride"
    "spec_nonTransposedAddress origin stride 1 = spec_nonTransposedAddress origin stride 0 + 1"
    by (simp_all add: spec_transposedAddress_def spec_nonTransposedAddress_def algebra_simps)
  have t: "spec_transposedAddress origin stride 0 mod ?m \<noteq> spec_transposedAddress origin stride 1 mod ?m"
    unfolding step using stride(2) assms(2) by (rule mod_shift_distinct)
  have n: "spec_nonTransposedAddress origin stride 0 mod ?m
             \<noteq> spec_nonTransposedAddress origin stride 1 mod ?m"
    unfolding step using \<open>1 < ?m\<close> by (intro mod_shift_distinct) simp_all
  have l1: "take 2 (createTwoPartAccess act space bf16 True) =
           [offsetType space @ '' address0 = '' @ render space (transposedAddress 0),
            offsetType space @ '' address1 = '' @ render space (transposedAddress 1)]"
    and l2: "take 2 (createTwoPartAccess act space bf16 False) =
           [offsetType space @ '' address0 = '' @ render space (nonTransposedAddress 0),
            offsetType space @ '' address1 = '' @ render space (nonTransposedAddress 1)]"
    by (simp_all only: two_part_address_lines createAddress_render)
  have r: "createAddress space True 0 = render space (transposedAddress 0)"
    "createAddress space True 1 = render space (transposedAddress 1)"
    "createAddress space False 0 = render space (nonTransposedAddress 0)"
    "createAddress space False 1 = render space (nonTransposedAddress 1)"
    by (rule createAddress_render)+
  note w = wrapped_transposed [OF zero, of "offset_bits space" origin stride]
    wrapped_transposed [OF one, of "offset_bits space" origin stride]
    wrapped_nonTransposed [OF zero, of "offset_bits space" origin stride]
    wrapped_nonTransposed [OF one, of "offset_bits space" origin stride]
  have d1: "wrapped_value (offset_bits space) origin stride (transposedAddress 0)
           \<noteq> wrapped_value (offset_bits space) origin stride (transposedAddress 1)"
    using t by (simp only: w option.inject simp_thms)
  have d2: "wrapped_value (offset_bits space) origin stride (nonTransposedAddress 0)
           \<noteq> wrapped_value (offset_bits space) origin stride (nonTransposedAddress 1)"
    using n by (simp only: w option.inject simp_thms)
  have e1: "\<forall>a0 a1. declared_address space origin stride (transposedAddress 0) = Some a0 \<and>
                  declared_address space origin stride (transposedAddress 1) = Some a1 \<longrightarrow>
                  a0 \<noteq> a1"
  proof (intro allI impI, elim conjE)
    fix a0 a1
    assume a0: "declared_address space origin stride (transposedAddress 0) = Some a0"
      and a1: "declared_address space origin stride (transposedAddress 1) = Some a1"
    have "a0 = spec_transposedAddress origin stride 0 mod ?m"
      by (rule declared_transposed [OF zero stride(1) assms(2) a0])
    moreover have "a1 = spec_transposedAddress origin stride 1 mod ?m"
      by (rule declared_transposed [OF one stride(1) assms(2) a1])
    ultimately show "a0 \<noteq> a1"
      using t by (simp only: simp_thms)
  qed
  have e2: "\<forall>a0 a1. declared_address space origin stride (nonTransposedAddress 0) = Some a0 \<and>
                  declared_address space origin stride (nonTransposedAddress 1) = Some a1 \<longrightarrow>
                  a0 \<noteq> a1"
  proof (intro allI impI, elim conjE)
    fix a0 a1
    assume a0: "declared_address space origin stride (nonTransposedAddress 0) = Some a0"
      and a1: "declared_address space origin stride (nonTransposedAddress 1) = Some a1"
    have "a0 = spec_nonTransposedAddress origin stride 0 mod ?m"
      by (rule declared_nonTransposed [OF zero stride(1) assms(2) a0])
    moreover have "a1 = spec_nonTransposedAddress origin stride 1 mod ?m"
      by (rule declared_nonTransposed [OF one stride(1) assms(2) a1])
    ultimately show "a0 \<noteq> a1"
      using n by (simp only: simp_thms)
  qed
  show ?thesis
    by (rule conjI l1 l2 r w d1 d2 e1 e2)+
qed

text \<open>
  In \<^verbatim>\<open>threadgroup\<close> memory at origin (65535, 9) and stride 2, where
  \<^verbatim>\<open>ushort(matrix_origin.x + 1)\<close> wraps to 0: the transposed addresses are 7 and 9,
  the non-transposed ones 17 and 18.
\<close>

theorem addresses_distinct_witness:
  "createAddress threadgroup True 0
     = ''ushort(matrix_origin.x + 0) * elements_per_row + ushort(matrix_origin.y)'' \<and>
   createAddress threadgroup True 1
     = ''ushort(matrix_origin.x + 1) * elements_per_row + ushort(matrix_origin.y)'' \<and>
   wrapped_value 16 (ushort2 65535 9) 2 (transposedAddress 0) = Some 7 \<and>
   wrapped_value 16 (ushort2 65535 9) 2 (transposedAddress 1) = Some 9 \<and>
   wrapped_value 16 (ushort2 65535 9) 2 (nonTransposedAddress 0) = Some 17 \<and>
   wrapped_value 16 (ushort2 65535 9) 2 (nonTransposedAddress 1) = Some 18 \<and>
   declared_address threadgroup (ushort2 65535 9) 2 (transposedAddress 0) = Some 7 \<and>
   declared_address threadgroup (ushort2 65535 9) 2 (transposedAddress 1) = Some 9"
proof -
  have "(1::int) < 2" "(2::int) < 2 ^ offset_bits threadgroup"
    by simp_all
  from addresses_distinct [OF this, of load True "ushort2 65535 9"]
  show ?thesis
    by (simp add: transposedAddress_def nonTransposedAddress_def to_string_0 to_string_1
        spec_transposedAddress_def spec_nonTransposedAddress_def check_int_def
        declared_address_def convert_def)
qed

section \<open>Properties of the text assembly\<close>

lemma whitespace_loop_False: "whitespace_loop line False = False"
  by (induction line) simp_all

lemma whitespace_loop_iff: "whitespace_loop line True \<longleftrightarrow> (\<forall>c \<in> set line. isspace c)"
  by (induction line) (simp_all add: whitespace_loop_False)

lemma insertBlockContents_map: "insertBlockContents body block = body @ map statement block"
  by (induction block arbitrary: body)
    (simp_all add: statement_def whitespace_loop_iff list_all_iff)

lemma body_lines_blocks:
  "body_lines act space bf16 =
     ''if (transpose_matrix) {'' # map statement (createTwoPartAccess act space bf16 True) @
     (if bf16
      then ''} else {'' #
           map statement (if act = load then createOnePartAccess act space bf16
                          else createTwoPartAccess act space bf16 False) @ [''}'']
      else ''} else if (elements_per_row % 2 != 0) {'' #
           map statement (createTwoPartAccess act space bf16 False) @
           ''} else {'' # map statement (createOnePartAccess act space bf16) @ [''}''])"
  by (simp add: body_lines_def insertBlockContents_map Let_def)

lemma join_Cons: "join sep (x # ys) = (if ys = [] then x else x @ sep @ join sep ys)"
  by (cases ys) simp_all

lemma argument_loop_join:
  "argument_loop args it out = out @ join '', '' (drop it args)"
proof (induction args it out rule: argument_loop.induct)
  case (1 args it out)
  show ?case
  proof (cases "it < length args")
    case True
    then have d: "drop it args = args ! it # drop (Suc it) args"
      by (simp add: Cons_nth_drop_Suc)
    from True "1.IH" [OF True] show ?thesis
      by (subst argument_loop.simps) (auto simp add: d join_Cons Let_def)
  next
    case False
    then show ?thesis
      by (subst argument_loop.simps) simp
  qed
qed

lemma body_loop_concat:
  "body_loop indentation body out
     = out @ concat (map (\<lambda>line. indentation @ ''  '' @ line @ [CHR 0x0A]) body)"
  by (induction body arbitrary: out) simp_all

text \<open>
  What a call returns: the failed precondition when an optional field is empty, the
  length error for a negative indentation, and otherwise the lines of the function,
  each behind the indentation and ended by a newline.
\<close>

lemma createMemoryAccess_result:
  "createMemoryAccess d =
     (if action d = None \<or> addressSpace d = None \<or> decodingBF16 d = None
      then Inl InvalidDescriptor
      else if indentationSpaceCount d < 0 then Inl LengthError
      else Inr (indented (replicate (nat (indentationSpaceCount d)) CHR '' '')
                  (function_lines (the (action d)) (the (addressSpace d)) (the (decodingBF16 d)))))"
  by (simp add: createMemoryAccess_def CCV_NNC_MFA_PRECONDITION_def and_then_def spaces_def
      Let_def argument_loop_join body_loop_concat indented_def function_lines_def
      signature_line_def comp_def)

lemma function_lines_no_newline:
  "list_all (\<lambda>line. CHR 0x0A \<notin> set line) (function_lines act space bf16)"
  by (cases act; cases space; cases bf16)
    (simp_all add: function_lines_def signature_line_def arguments_def pointerArgument_def
      body_lines_blocks statement_def isspace_def createTwoPartAccess_def
      createOnePartAccess_def createAddress_def to_string_0 to_string_1 Let_def)

text \<open>
  C9: a fragment with a character that is not whitespace is emitted with a semicolon
  appended, a fragment of whitespace only (the empty one included) as a blank line
  without one; and the text of a function is its lines, none of which contains a
  newline, every one of them behind the same indentation of \<open>n\<close> spaces.
\<close>

theorem text_assembly:
  "insertBlockContents body block =
     body @ map (\<lambda>line. if \<forall>c \<in> set line. isspace c then ''  '' else ''  '' @ line @ '';'') block \<and>
   (0 \<le> n \<longrightarrow>
      createMemoryAccess \<lparr>action = Some act, addressSpace = Some space,
                          decodingBF16 = Some bf16, indentationSpaceCount = n\<rparr>
        = Inr (indented (replicate (nat n) CHR '' '') (function_lines act space bf16))) \<and>
   list_all (\<lambda>line. CHR 0x0A \<notin> set line) (function_lines act space bf16)"
  by (simp add: insertBlockContents_map statement_def list_all_iff createMemoryAccess_result
      function_lines_no_newline [unfolded list_all_iff])

text \<open>
  A block with a statement, an empty fragment, a fragment of a tab and a space, and
  another statement; and a function generated with an indentation of two spaces.
\<close>

theorem text_assembly_witness:
  "insertBlockContents [''{''] [''a = b'', '''', [CHR 0x09, CHR '' ''], ''c'']
     = [''{'', ''  a = b;'', ''  '', ''  '', ''  c;''] \<and>
   createMemoryAccess \<lparr>action = Some store, addressSpace = Some threadgroup,
                       decodingBF16 = Some True, indentationSpaceCount = 2\<rparr>
     = Inr (indented ''  '' (function_lines store threadgroup True))"
proof -
  have two: "replicate 2 CHR '' '' = ''  ''"
    by (simp add: numeral_2_eq_2)
  from text_assembly [of "[''{'']" "[''a = b'', '''', [CHR 0x09, CHR '' ''], ''c'']" 2 store threadgroup True]
  show ?thesis
    by (simp add: isspace_def two)
qed

section \<open>Properties of the completeness check\<close>

text \<open>
  C6, as the code has it: generation fails with \<open>InvalidDescriptor\<close>, and so returns
  no text, exactly when one of the three optional fields (operation, memory space,
  codec flag) is empty.  The indentation is not optional: it starts at 0 and no check
  looks at it.
\<close>

theorem InvalidDescriptor_iff:
  "createMemoryAccess d = Inl InvalidDescriptor \<longleftrightarrow>
     action d = None \<or> addressSpace d = None \<or> decodingBF16 d = None"
  by (simp add: createMemoryAccess_result)

text \<open>
  C6 as the spec words it fails for the fourth field: a descriptor whose indentation
  was never set, the other three fields given, does not fail with
  \<open>InvalidDescriptor\<close>.
\<close>

theorem indentation_left_unset:
  "createMemoryAccess
     (default_descriptor\<lparr>action := Some load, addressSpace := Some device,
                          decodingBF16 := Some False\<rparr>) \<noteq> Inl InvalidDescriptor"
  by (simp add: createMemoryAccess_result default_descriptor_def)

section \<open>Properties of the branch selection\<close>










section \<open>Properties of the header assembly\<close>

lemma four_spaces: "replicate 4 CHR '' '' = ''    ''"
  by (simp add: eval_nat_numeral)

text \<open>
  One pass of the loop body sets the three optional fields and appends the function
  for them and a newline; it cannot fail while the indentation is not negative.
\<close>

lemma append_variant_text:
  "0 \<le> indentationSpaceCount desc \<Longrightarrow>
   append_variant act space bf16 (desc, out) =
     Inr (desc\<lparr>action := Some act, addressSpace := Some space, decodingBF16 := Some bf16\<rparr>,
          out @ indented (replicate (nat (indentationSpaceCount desc)) CHR '' '')
                  (function_lines act space bf16) @ [CHR 0x0A])"
  by (simp add: append_variant_def createMemoryAccess_result and_then_def Let_def)

text \<open>
  The matrix storage header: the first section, the eight functions in the order of
  \<open>variants\<close>, each indented by four spaces and followed by an empty line, and the
  last section.
\<close>

lemma createMetalSimdgroupMatrixStorage_text:
  "createMetalSimdgroupMatrixStorage =
     Inr (first_section @
          concat (map (\<lambda>(act, space, bf16).
                         indented ''    '' (function_lines act space bf16) @ [CHR 0x0A])
                    variants) @
          last_section)"
  by (simp add: createMetalSimdgroupMatrixStorage_def default_descriptor_def variants_def
      append_variant_text and_then_def four_spaces Let_def)

section \<open>Properties of the tile copies\<close>

subsection \<open>The loops\<close>

lemma unat_inc:
  fixes i bound :: ushort
  assumes "i < bound"
  shows "unat (i + 1) = Suc (unat i)"
proof -
  from assms have "unat i < unat bound"
    by (simp add: word_less_nat_alt)
  moreover have "unat bound < 2 ^ LENGTH(16)"
    by (rule unsigned_less)
  ultimately have "unat i + unat (1 :: ushort) < 2 ^ LENGTH(16)"
    by simp
  then have "unat (i + 1) = unat i + unat (1 :: ushort)"
    by (simp only: unat_add_lem)
  then show ?thesis
    by simp
qed

lemma ushort_for_foldl:
  "ushort_for i bound body s = foldl (\<lambda>s k. body (of_nat k) s) s [unat i..<unat bound]"
proof (induction i bound body s rule: ushort_for.induct)
  case (1 i bound body s)
  show ?case
  proof (cases "i < bound")
    case True
    then have less: "unat i < unat bound"
      by (simp add: word_less_nat_alt)
    from True "1.IH" [OF True] less show ?thesis
      by (subst ushort_for.simps) (simp add: unat_inc [OF True] upt_conv_Cons)
  next
    case False
    then have "unat bound \<le> unat i"
      by (simp add: word_less_nat_alt)
    with False show ?thesis
      by (subst ushort_for.simps) simp
  qed
qed

lemma unat_of_nat_ushort: "k < unat (bound :: ushort) \<Longrightarrow> unat (of_nat k :: ushort) = k"
proof -
  assume "k < unat bound"
  moreover have "unat bound < 2 ^ LENGTH(16)"
    by (rule unsigned_less)
  ultimately have "k < 2 ^ LENGTH(16)"
    by simp
  then show ?thesis
    by (simp add: unat_of_nat)
qed

subsection \<open>The indices\<close>

lemma index_bound:
  fixes a b c :: nat
  assumes "a < 2 ^ 16" "b < 2 ^ 32" "c < 2 ^ 16"
  shows "a * b + c < 2 ^ 64"
proof -
  from assms have "a * b \<le> 2 ^ 16 * 2 ^ 32"
    by (intro mult_mono) simp_all
  with assms show ?thesis
    by simp
qed

text \<open>The 64-bit index arithmetic never wraps around.\<close>

lemma unat_index_uint:
  fixes y x :: ushort and e :: uint
  shows "unat ((ucast y :: ulong) * ucast e + ucast x) = unat y * unat e + unat x"
proof -
  have "unat y * unat e + unat x < 2 ^ 64"
    using unsigned_less [of y] unsigned_less [of e] unsigned_less [of x]
    by (intro index_bound) simp_all
  then show ?thesis
    by (simp add: unat_word_ariths unat_ucast_ushort_ulong unat_ucast_uint_ulong mod_simps)
qed

lemma unat_index_ushort:
  fixes y x :: ushort and e :: ushort
  shows "unat ((ucast y :: ulong) * ucast e + ucast x) = unat y * unat e + unat x"
proof -
  have "unat e < 2 ^ LENGTH(16)"
    by (rule unsigned_less)
  then have "unat e < 2 ^ 32"
    by simp
  then have "unat y * unat e + unat x < 2 ^ 64"
    using unsigned_less [of y] unsigned_less [of x]
    by (intro index_bound) simp_all
  then show ?thesis
    by (simp add: unat_word_ariths unat_ucast_ushort_ulong mod_simps)
qed

lemma unat_min: "unat (min a b) = min (unat a) (unat b)" for a b :: "'a::len word"
  by (simp add: min_def word_le_nat_alt)

subsection \<open>One cell\<close>

lemma forward_cell_spec:
  "forward_cell dst_elements_per_row src src_elements_per_row sd clamp_mode y x dst =
     dst(cell_index (unat dst_elements_per_row) (unat x, unat y) :=
           spec_forward_value src (unat src_elements_per_row) (unat (x_of sd)) (unat (y_of sd))
             clamp_mode (unat x, unat y))"
  by (auto simp add: forward_cell_def spec_forward_value_def cell_index_def Let_def
      unat_index_uint unat_index_ushort unat_min word_less_nat_alt unat_minus_one
      unat_gt_0 word_greater_zero_iff)

lemma reverse_cell_spec:
  "reverse_cell dst_elements_per_row src src_elements_per_row y x dst =
     dst(cell_index (unat dst_elements_per_row) (unat x, unat y) :=
           src (cell_index (unat src_elements_per_row) (unat x, unat y)))"
  by (simp add: reverse_cell_def cell_index_def Let_def unat_index_uint unat_index_ushort)

subsection \<open>All cells\<close>

lemma write_cells_snoc:
  "write_cells index val dst (cells @ [c]) = (write_cells index val dst cells)(index c := val c)"
  by (simp add: write_cells_def)

lemma write_cells_append:
  "write_cells index val dst (cs @ ds) = write_cells index val (write_cells index val dst cs) ds"
  by (simp add: write_cells_def)

lemma write_cells_concat:
  "write_cells index val dst (concat rows) = foldl (write_cells index val) dst rows"
  by (induction rows arbitrary: dst) (simp_all add: write_cells_append, simp add: write_cells_def)

lemma write_cells_row:
  "write_cells index val dst (map (\<lambda>x. (x, y)) xs)
     = foldl (\<lambda>m x. m(index (x, y) := val (x, y))) dst xs"
  by (simp add: write_cells_def foldl_map)

lemma write_cells_tile:
  "write_cells index val dst (tile_cells w h)
     = foldl (\<lambda>m y. foldl (\<lambda>m x. m(index (x, y) := val (x, y))) m [0..<w]) dst [0..<h]"
  by (simp add: tile_cells_def write_cells_concat foldl_map write_cells_row)

lemma nested_loops:
  assumes cell: "\<And>y x m. cell y x m = m(index (unat x, unat y) := val (unat x, unat y))"
  shows "ushort_for 0 h (\<lambda>y. ushort_for 0 w (cell y)) dst
           = write_cells index val dst (tile_cells (unat w) (unat h))"
proof -
  have "foldl (\<lambda>s ky. foldl (\<lambda>s k. cell (of_nat ky) (of_nat k) s) s [0..<unat w]) dst [0..<unat h]
      = foldl (\<lambda>m y. foldl (\<lambda>m x. m(index (x, y) := val (x, y))) m [0..<unat w]) dst [0..<unat h]"
  proof (intro foldl_cong refl)
    fix m :: "nat \<Rightarrow> 'a" and ky kx
    assume "ky \<in> set [0..<unat h]" and "kx \<in> set [0..<unat w]"
    then have "unat (of_nat ky :: ushort) = ky" and "unat (of_nat kx :: ushort) = kx"
      by (simp_all add: unat_of_nat_ushort [of _ h] unat_of_nat_ushort [of _ w])
    then show "cell (of_nat ky) (of_nat kx) m = m(index (kx, ky) := val (kx, ky))"
      by (simp add: cell)
  qed
  then show ?thesis
    by (simp add: ushort_for_foldl write_cells_tile)
qed

subsection \<open>The memory after the writes\<close>

lemma write_cells_other:
  "i \<notin> index ` set cells \<Longrightarrow> write_cells index val dst cells i = dst i"
  by (induction cells rule: rev_induct) (simp_all add: write_cells_snoc, simp add: write_cells_def)

lemma write_cells_at:
  "c \<in> set cells \<Longrightarrow> inj_on index (set cells) \<Longrightarrow> write_cells index val dst cells (index c) = val c"
proof (induction cells rule: rev_induct)
  case Nil
  then show ?case by simp
next
  case (snoc d cells)
  show ?case
  proof (cases "index c = index d")
    case True
    from snoc.prems(2) True snoc.prems(1) have "c = d"
      by (rule inj_onD) simp
    then show ?thesis
      by (simp add: write_cells_snoc)
  next
    case False
    with snoc.prems have "c \<in> set cells" "inj_on index (set cells)"
      by (auto simp add: inj_on_def)
    with snoc.IH False show ?thesis
      by (simp add: write_cells_snoc)
  qed
qed

lemma set_tile_cells: "set (tile_cells w h) = {(x, y). x < w \<and> y < h}"
  by (auto simp add: tile_cells_def)

lemma row_major_unique:
  fixes stride :: nat
  assumes "x < stride" "x' < stride" "y * stride + x = y' * stride + x'"
  shows "x = x' \<and> y = y'"
proof -
  from assms(1,2) have "(y * stride + x) div stride = y" "(y' * stride + x') div stride = y'"
    "(y * stride + x) mod stride = x" "(y' * stride + x') mod stride = x'"
    by simp_all
  with assms(3) show ?thesis
    by metis
qed

lemma cell_index_inj:
  assumes "w \<le> stride"
  shows "inj_on (cell_index stride) (set (tile_cells w h))"
proof (rule inj_onI)
  fix c d
  assume c: "c \<in> set (tile_cells w h)" and d: "d \<in> set (tile_cells w h)"
    and eq: "cell_index stride c = cell_index stride d"
  obtain x y x' y' where cd: "c = (x, y)" "d = (x', y')"
    by (cases c, cases d) auto
  with c d assms have "x < stride" "x' < stride"
    by (auto simp add: set_tile_cells)
  moreover from eq cd have "y * stride + x = y' * stride + x'"
    by (simp add: cell_index_def)
  ultimately show "c = d"
    using cd by (auto dest: row_major_unique)
qed

text \<open>
  With a row stride that is at least the width of the tile, the cells of the
  destination do not overlap: a cell of the tile holds the value written for it, and
  every other cell of the rows holds what it held before.
\<close>

lemma write_cells_row_major:
  assumes "w \<le> stride" "x < stride"
  shows "write_cells (cell_index stride) val dst (tile_cells w h) (y * stride + x)
           = (if x < w \<and> y < h then val (x, y) else dst (y * stride + x))"
proof (cases "x < w \<and> y < h")
  case True
  with write_cells_at [of "(x, y)" "tile_cells w h" "cell_index stride" val dst]
    cell_index_inj [OF assms(1), of h]
  show ?thesis
    by (simp add: set_tile_cells cell_index_def)
next
  case False
  have "y * stride + x \<notin> cell_index stride ` set (tile_cells w h)"
  proof
    assume "y * stride + x \<in> cell_index stride ` set (tile_cells w h)"
    then obtain x' y' where "x' < w" "y' < h" "y * stride + x = y' * stride + x'"
      by (auto simp add: set_tile_cells cell_index_def)
    with assms row_major_unique [of x stride x' y y'] have "x = x' \<and> y = y'"
      by simp
    with \<open>x' < w\<close> \<open>y' < h\<close> False show False
      by simp
  qed
  with False show ?thesis
    by (auto simp add: write_cells_other)
qed

subsection \<open>The forward copy\<close>

text \<open>
  C4: the forward copy writes the cells of the destination extent (swapped under
  \<^verbatim>\<open>transpose_matrix\<close>) row by row, each with the value the spec's rule gives it:
  the source cell of the same coordinates inside the source extent, the source cell
  at \<open>(min x (width - 1), min y (height - 1))\<close> under clamp-to-edge with both source
  extents positive, and zero otherwise.  When the destination row stride is at least
  the destination width, that value is what the cell holds afterwards.
\<close>

theorem forward_tiled_copy:
  "async_copy_to_threadgroup dst dst_elements_per_row dst_tile_dimensions
       src src_elements_per_row src_tile_dimensions transpose_matrix clamp_mode
     = write_cells (cell_index (unat dst_elements_per_row))
         (spec_forward_value src (unat src_elements_per_row)
            (tile_width transpose_matrix src_tile_dimensions)
            (tile_height transpose_matrix src_tile_dimensions) clamp_mode)
         dst
         (tile_cells (tile_width transpose_matrix dst_tile_dimensions)
            (tile_height transpose_matrix dst_tile_dimensions)) \<and>
   (tile_width transpose_matrix dst_tile_dimensions \<le> unat dst_elements_per_row \<longrightarrow>
      (\<forall>x y. x < tile_width transpose_matrix dst_tile_dimensions \<and>
             y < tile_height transpose_matrix dst_tile_dimensions \<longrightarrow>
         async_copy_to_threadgroup dst dst_elements_per_row dst_tile_dimensions
             src src_elements_per_row src_tile_dimensions transpose_matrix clamp_mode
             (y * unat dst_elements_per_row + x)
           = spec_forward_value src (unat src_elements_per_row)
               (tile_width transpose_matrix src_tile_dimensions)
               (tile_height transpose_matrix src_tile_dimensions) clamp_mode (x, y)))"
proof -
  let ?cells = "tile_cells (tile_width transpose_matrix dst_tile_dimensions)
                  (tile_height transpose_matrix dst_tile_dimensions)"
  let ?val = "spec_forward_value src (unat src_elements_per_row)
                (tile_width transpose_matrix src_tile_dimensions)
                (tile_height transpose_matrix src_tile_dimensions) clamp_mode"
  have loops: "async_copy_to_threadgroup dst dst_elements_per_row dst_tile_dimensions
       src src_elements_per_row src_tile_dimensions transpose_matrix clamp_mode
     = write_cells (cell_index (unat dst_elements_per_row)) ?val dst ?cells"
    unfolding async_copy_to_threadgroup_def Let_def tile_width_def tile_height_def
    by (rule nested_loops) (rule forward_cell_spec)
  have "write_cells (cell_index (unat dst_elements_per_row)) ?val dst ?cells
          (y * unat dst_elements_per_row + x) = ?val (x, y)"
    if "tile_width transpose_matrix dst_tile_dimensions \<le> unat dst_elements_per_row"
      and "x < tile_width transpose_matrix dst_tile_dimensions"
      and "y < tile_height transpose_matrix dst_tile_dimensions" for x y
    using that by (simp add: write_cells_row_major)
  with loops show ?thesis
    by simp
qed

text \<open>
  A destination tile of extent (4, 4) with row stride 4, a source tile of extent
  (2, 2) with row stride 8 that holds \<open>100 + index\<close>: cell (3, 3) takes source cell
  (1, 1) under clamp-to-edge and zero under clamp-to-zero, and cell (1, 1) takes
  source cell (1, 1).  With \<^verbatim>\<open>transpose_matrix\<close> and tile dimensions (1, 3) and
  (1, 2), the destination is 3 wide and the source 2 wide: cell (2, 0) takes source
  cell (1, 0) under clamp-to-edge.
\<close>

theorem forward_tiled_copy_witness:
  "async_copy_to_threadgroup (\<lambda>i. 7) 4 (ushort2 4 4) (\<lambda>i. int i + 100) 8 (ushort2 2 2)
       False clamp_to_edge (3 * 4 + 3) = 109 \<and>
   async_copy_to_threadgroup (\<lambda>i. 7) 4 (ushort2 4 4) (\<lambda>i. int i + 100) 8 (ushort2 2 2)
       False clamp_to_zero (3 * 4 + 3) = 0 \<and>
   async_copy_to_threadgroup (\<lambda>i. 7) 4 (ushort2 4 4) (\<lambda>i. int i + 100) 8 (ushort2 2 2)
       False clamp_to_zero (1 * 4 + 1) = 109 \<and>
   async_copy_to_threadgroup (\<lambda>i. 7) 4 (ushort2 1 3) (\<lambda>i. int i + 100) 8 (ushort2 1 2)
       True clamp_to_edge (0 * 4 + 2) = 101"
proof -
  have cell: "async_copy_to_threadgroup (\<lambda>i. 7) 4 dd (\<lambda>i. int i + 100) 8 sd t clamp_mode
                  (y * unat (4 :: ushort) + x)
                = spec_forward_value (\<lambda>i. int i + 100) (unat (8 :: uint))
                    (tile_width t sd) (tile_height t sd) clamp_mode (x, y)"
    if "tile_width t dd \<le> unat (4 :: ushort)" and "x < tile_width t dd \<and> y < tile_height t dd"
    for dd sd t clamp_mode x y
    using forward_tiled_copy [where dst = "\<lambda>i. 7" and dst_elements_per_row = 4
        and dst_tile_dimensions = dd and src = "\<lambda>i. int i + 100"
        and src_elements_per_row = 8 and src_tile_dimensions = sd
        and transpose_matrix = t and clamp_mode = clamp_mode] that
    by blast
  have square: "tile_width False (ushort2 4 4) \<le> unat (4 :: ushort)"
    and swapped: "tile_width True (ushort2 1 3) \<le> unat (4 :: ushort)"
    by (simp_all add: tile_width_def yx_def)
  from cell [OF square, of 3 3 "ushort2 2 2" clamp_to_edge]
    cell [OF square, of 3 3 "ushort2 2 2" clamp_to_zero]
    cell [OF square, of 1 1 "ushort2 2 2" clamp_to_zero]
    cell [OF swapped, of 2 0 "ushort2 1 2" clamp_to_edge]
  show ?thesis
    by (simp add: tile_width_def tile_height_def yx_def spec_forward_value_def)
qed

subsection \<open>The reverse copy\<close>

text \<open>
  C5: the reverse copy writes the cells \<open>(x, y)\<close> with
  \<open>x < min (destination width) (source width)\<close> and
  \<open>y < min (destination height) (source height)\<close>, extents swapped under
  \<^verbatim>\<open>transpose_matrix\<close>, each from the source cell of the same coordinates, and
  nothing else: an element that is not the place of such a cell keeps its value.
  When the destination row stride is at least the width of that overlap, every cell
  of the destination rows holds the source value inside the overlap and its old
  value outside; no clamp policy and no zero fill take part.
\<close>

theorem reverse_tiled_copy:
  "async_copy_to_device dst dst_elements_per_row dst_tile_dimensions
       src src_elements_per_row src_tile_dimensions transpose_matrix
     = write_cells (cell_index (unat dst_elements_per_row))
         (\<lambda>c. src (cell_index (unat src_elements_per_row) c))
         dst
         (tile_cells
            (min (tile_width transpose_matrix dst_tile_dimensions)
                 (tile_width transpose_matrix src_tile_dimensions))
            (min (tile_height transpose_matrix dst_tile_dimensions)
                 (tile_height transpose_matrix src_tile_dimensions))) \<and>
   (\<forall>i. i \<notin> cell_index (unat dst_elements_per_row) `
              set (tile_cells
                     (min (tile_width transpose_matrix dst_tile_dimensions)
                          (tile_width transpose_matrix src_tile_dimensions))
                     (min (tile_height transpose_matrix dst_tile_dimensions)
                          (tile_height transpose_matrix src_tile_dimensions))) \<longrightarrow>
        async_copy_to_device dst dst_elements_per_row dst_tile_dimensions
            src src_elements_per_row src_tile_dimensions transpose_matrix i = dst i) \<and>
   (min (tile_width transpose_matrix dst_tile_dimensions)
        (tile_width transpose_matrix src_tile_dimensions) \<le> unat dst_elements_per_row \<longrightarrow>
      (\<forall>x y. x < unat dst_elements_per_row \<longrightarrow>
         async_copy_to_device dst dst_elements_per_row dst_tile_dimensions
             src src_elements_per_row src_tile_dimensions transpose_matrix
             (y * unat dst_elements_per_row + x)
           = (if x < min (tile_width transpose_matrix dst_tile_dimensions)
                         (tile_width transpose_matrix src_tile_dimensions) \<and>
                 y < min (tile_height transpose_matrix dst_tile_dimensions)
                         (tile_height transpose_matrix src_tile_dimensions)
              then src (y * unat src_elements_per_row + x)
              else dst (y * unat dst_elements_per_row + x))))"
proof -
  let ?w = "min (tile_width transpose_matrix dst_tile_dimensions)
                (tile_width transpose_matrix src_tile_dimensions)"
  let ?h = "min (tile_height transpose_matrix dst_tile_dimensions)
                (tile_height transpose_matrix src_tile_dimensions)"
  let ?val = "\<lambda>c. src (cell_index (unat src_elements_per_row) c)"
  have loops: "async_copy_to_device dst dst_elements_per_row dst_tile_dimensions
       src src_elements_per_row src_tile_dimensions transpose_matrix
     = write_cells (cell_index (unat dst_elements_per_row)) ?val dst (tile_cells ?w ?h)"
    unfolding async_copy_to_device_def Let_def tile_width_def tile_height_def unat_min [symmetric]
    by (rule nested_loops) (rule reverse_cell_spec)
  have "write_cells (cell_index (unat dst_elements_per_row)) ?val dst (tile_cells ?w ?h)
          (y * unat dst_elements_per_row + x)
        = (if x < ?w \<and> y < ?h then src (y * unat src_elements_per_row + x)
           else dst (y * unat dst_elements_per_row + x))"
    if "?w \<le> unat dst_elements_per_row" and "x < unat dst_elements_per_row" for x y
    using write_cells_row_major [OF that, of ?val dst ?h y] by (simp add: cell_index_def)
  with loops show ?thesis
    by (simp add: write_cells_other del: min_less_iff_conj)
qed

text \<open>
  A destination tile of extent (2, 2) and a source tile of extent (4, 4), both with
  row stride 4, the source holding \<open>100 + index\<close> and the destination 7 everywhere:
  cell (1, 1) takes source cell (1, 1); cells (2, 0) and (0, 2) keep the 7.
\<close>

theorem reverse_tiled_copy_witness:
  "async_copy_to_device (\<lambda>i. 7) 4 (ushort2 2 2) (\<lambda>i. int i + 100) 4 (ushort2 4 4) False
       (1 * 4 + 1) = 105 \<and>
   async_copy_to_device (\<lambda>i. 7) 4 (ushort2 2 2) (\<lambda>i. int i + 100) 4 (ushort2 4 4) False
       (0 * 4 + 2) = 7 \<and>
   async_copy_to_device (\<lambda>i. 7) 4 (ushort2 2 2) (\<lambda>i. int i + 100) 4 (ushort2 4 4) False
       (2 * 4 + 0) = 7"
proof -
  have wide: "min (tile_width False (ushort2 2 2)) (tile_width False (ushort2 4 4))
                \<le> unat (4 :: uint)"
    by (simp add: tile_width_def)
  have cell: "async_copy_to_device (\<lambda>i. 7) 4 (ushort2 2 2) (\<lambda>i. int i + 100) 4
                  (ushort2 4 4) False (y * unat (4 :: uint) + x)
                = (if x < min (tile_width False (ushort2 2 2)) (tile_width False (ushort2 4 4)) \<and>
                      y < min (tile_height False (ushort2 2 2)) (tile_height False (ushort2 4 4))
                   then int (y * unat (4 :: ushort) + x) + 100 else 7)"
    if "x < unat (4 :: uint)" for x y
    using reverse_tiled_copy [where dst = "\<lambda>i. 7" and dst_elements_per_row = 4
        and dst_tile_dimensions = "ushort2 2 2" and src = "\<lambda>i. int i + 100"
        and src_elements_per_row = 4 and src_tile_dimensions = "ushort2 4 4"
        and transpose_matrix = False] wide that
    by blast
  from cell [of 1 1] cell [of 2 0] cell [of 0 2]
  show ?thesis
    by (simp add: tile_width_def tile_height_def)
qed

end
